theory Spec2Isabelle
  imports Complex_Main
begin

section \<open>Floating-point values of the table\<close>

text \<open>
  The columns of the pandas table hold 64-bit floats.  A float is modelled as a value of
  \<open>fl\<close>: a finite double \<open>Fin r\<close> with the real number \<open>r\<close> it stands for, one of the two
  infinities, or NaN (pandas' marker of a missing value).  Comparisons of doubles are
  exact; comparisons with NaN are false, as in Python.
\<close>

datatype fl = Fin real | PInf | NInf | NaN

fun fl_gt :: "fl \<Rightarrow> fl \<Rightarrow> bool" where
  "fl_gt NaN y = False"
| "fl_gt x NaN = False"
| "fl_gt (Fin a) (Fin b) = (b < a)"
| "fl_gt PInf PInf = False"
| "fl_gt PInf y = True"
| "fl_gt x PInf = False"
| "fl_gt NInf y = False"
| "fl_gt x NInf = True"

definition fl_lt :: "fl \<Rightarrow> fl \<Rightarrow> bool" where
  "fl_lt x y = fl_gt y x"

text \<open>
  The arithmetic of doubles rounds its results, and it is numpy's and pandas', not code
  of this repository.  It is a parameter of every function below: the four operations of
  Python and numpy floats, the kernel of pandas' rolling mean (the value it gives for a
  full window of the given size at the last of the rows given; it is computed from running
  sums, so it may depend on all rows so far), and numpy's sum and square root.  An
  operation on a real that is no double is the operation on the double nearest to it, as
  for a decimal literal of the source.  Division by zero does not raise on numpy floats.
  Nothing is assumed of these operations but what a theorem states.
\<close>

record arith =
  f_add :: "fl \<Rightarrow> fl \<Rightarrow> fl"
  f_sub :: "fl \<Rightarrow> fl \<Rightarrow> fl"
  f_mul :: "fl \<Rightarrow> fl \<Rightarrow> fl"
  f_div :: "fl \<Rightarrow> fl \<Rightarrow> fl"
  f_mean :: "nat \<Rightarrow> real list \<Rightarrow> fl"
  f_sum :: "fl list \<Rightarrow> fl"
  f_sqrt :: "fl \<Rightarrow> fl"

text \<open>
  Facts of IEEE arithmetic that the theorems below name as hypotheses: an operation on
  NaN gives NaN; the operations are exact on 0 and 1, zero divided by a count is zero and
  by zero is NaN, a sum of zeros is zero and so is its square root; and on operands of
  magnitude at most 1000 a difference or product is off by at most 1/1000.
\<close>

definition nan_propagates :: "arith \<Rightarrow> bool" where
  "nan_propagates A =
     (\<forall>x. f_add A NaN x = NaN \<and> f_add A x NaN = NaN \<and>
          f_sub A NaN x = NaN \<and> f_sub A x NaN = NaN \<and>
          f_mul A NaN x = NaN \<and> f_mul A x NaN = NaN \<and>
          f_div A NaN x = NaN \<and> f_div A x NaN = NaN)"

definition exact_on_zero_one :: "arith \<Rightarrow> bool" where
  "exact_on_zero_one A =
     (f_mul A (Fin 0) (Fin 0) = Fin 0 \<and> f_mul A (Fin 0) (Fin 1) = Fin 0 \<and>
      f_mul A (Fin 1) (Fin 1) = Fin 1 \<and> f_add A (Fin 1) (Fin 0) = Fin 1 \<and>
      f_sub A (Fin 1) (Fin 1) = Fin 0 \<and> f_sub A (Fin 0) (Fin 0) = Fin 0 \<and>
      f_div A (Fin 0) (Fin 0) = NaN \<and>
      (\<forall>m::nat. 1 \<le> m \<longrightarrow> f_div A (Fin 0) (Fin (real m)) = Fin 0) \<and>
      (\<forall>m::nat. f_sum A (replicate m (Fin 0)) = Fin 0) \<and>
      f_sqrt A (Fin 0) = Fin 0)"


text \<open>
  The arithmetic of the reals, without rounding.  It runs the examples below; their
  tables are chosen so that no outcome hangs on a rounding.
\<close>

fun fl_neg :: "fl \<Rightarrow> fl" where
  "fl_neg (Fin a) = Fin (- a)"
| "fl_neg PInf = NInf"
| "fl_neg NInf = PInf"
| "fl_neg NaN = NaN"

fun fl_add :: "fl \<Rightarrow> fl \<Rightarrow> fl" where
  "fl_add NaN y = NaN"
| "fl_add x NaN = NaN"
| "fl_add (Fin a) (Fin b) = Fin (a + b)"
| "fl_add PInf NInf = NaN"
| "fl_add NInf PInf = NaN"
| "fl_add PInf y = PInf"
| "fl_add x PInf = PInf"
| "fl_add NInf y = NInf"
| "fl_add x NInf = NInf"

definition fl_sub :: "fl \<Rightarrow> fl \<Rightarrow> fl" where
  "fl_sub x y = fl_add x (fl_neg y)"

definition inf_of_sign :: "real \<Rightarrow> fl" where
  "inf_of_sign a = (if a = 0 then NaN else if 0 < a then PInf else NInf)"

fun fl_mul :: "fl \<Rightarrow> fl \<Rightarrow> fl" where
  "fl_mul NaN y = NaN"
| "fl_mul x NaN = NaN"
| "fl_mul (Fin a) (Fin b) = Fin (a * b)"
| "fl_mul (Fin a) PInf = inf_of_sign a"
| "fl_mul (Fin a) NInf = inf_of_sign (- a)"
| "fl_mul PInf (Fin b) = inf_of_sign b"
| "fl_mul NInf (Fin b) = inf_of_sign (- b)"
| "fl_mul PInf PInf = PInf"
| "fl_mul PInf NInf = NInf"
| "fl_mul NInf PInf = NInf"
| "fl_mul NInf NInf = PInf"

fun fl_div :: "fl \<Rightarrow> fl \<Rightarrow> fl" where
  "fl_div NaN y = NaN"
| "fl_div x NaN = NaN"
| "fl_div (Fin a) (Fin b) = (if b = 0 then inf_of_sign a else Fin (a / b))"
| "fl_div (Fin a) PInf = Fin 0"
| "fl_div (Fin a) NInf = Fin 0"
| "fl_div PInf (Fin b) = (if 0 \<le> b then PInf else NInf)"
| "fl_div NInf (Fin b) = (if 0 \<le> b then NInf else PInf)"
| "fl_div x y = NaN"

fun fl_sqrt :: "fl \<Rightarrow> fl" where
  "fl_sqrt (Fin a) = (if a < 0 then NaN else Fin (sqrt a))"
| "fl_sqrt PInf = PInf"
| "fl_sqrt NInf = NaN"
| "fl_sqrt NaN = NaN"

definition fl_sum :: "fl list \<Rightarrow> fl" where
  "fl_sum xs = foldl fl_add (Fin 0) xs"

definition exact :: arith where
  "exact =
     \<lparr>f_add = fl_add, f_sub = fl_sub, f_mul = fl_mul, f_div = fl_div,
      f_mean = (\<lambda>w xs. Fin (sum_list (drop (length xs - w) xs) / real w)),
      f_sum = fl_sum, f_sqrt = fl_sqrt\<rparr>"

section \<open>Column operations of pandas and numpy\<close>

text \<open>\<^verbatim>\<open>Series.shift(1)\<close>: every value moves one row down, the first row is NaN.\<close>

definition shift1 :: "fl list \<Rightarrow> fl list" where
  "shift1 xs = take (length xs) (NaN # xs)"

text \<open>\<^verbatim>\<open>Series.pct_change()\<close> computes \<^verbatim>\<open>data / data.shift(1) - 1\<close>.\<close>

definition pct_change :: "arith \<Rightarrow> fl list \<Rightarrow> fl list" where
  "pct_change A xs = map2 (\<lambda>x y. f_sub A (f_div A x y) (Fin 1)) xs (shift1 xs)"

text \<open>\<^verbatim>\<open>Series.diff()\<close> computes \<^verbatim>\<open>data - data.shift(1)\<close>.\<close>

definition series_diff :: "arith \<Rightarrow> fl list \<Rightarrow> fl list" where
  "series_diff A xs = map2 (f_sub A) xs (shift1 xs)"

definition fillna :: "fl \<Rightarrow> fl list \<Rightarrow> fl list" where
  "fillna v xs = map (\<lambda>x. if x = NaN then v else x) xs"

text \<open>
  \<^verbatim>\<open>Series.rolling(window=w).mean()\<close> on a column without missing values: row \<open>i\<close>
  holds the rolling mean of the \<open>w\<close> values ending at row \<open>i\<close> once \<open>w\<close> values are there,
  and NaN before.  A window of 0 gives NaN in every row.
\<close>

definition rolling_mean :: "arith \<Rightarrow> nat \<Rightarrow> real list \<Rightarrow> fl list" where
  "rolling_mean A w xs =
     map (\<lambda>i. if 0 < w \<and> w \<le> Suc i then f_mean A w (take (Suc i) xs) else NaN)
         [0..<length xs]"

text \<open>\<^verbatim>\<open>np.where(a > b, 1, 0)\<close> on two columns of the same rows.\<close>

definition np_where_gt :: "fl list \<Rightarrow> fl list \<Rightarrow> int list" where
  "np_where_gt xs ys = map2 (\<lambda>a b. if fl_gt a b then 1 else 0) xs ys"

text \<open>
  \<^verbatim>\<open>Series.cumprod()\<close> skips missing values: a NaN row stays NaN and leaves the
  running product as it was.
\<close>

fun cumprod_from :: "arith \<Rightarrow> fl \<Rightarrow> fl list \<Rightarrow> fl list" where
  "cumprod_from A acc [] = []"
| "cumprod_from A acc (x # xs) =
     (if x = NaN then NaN # cumprod_from A acc xs
      else f_mul A acc x # cumprod_from A (f_mul A acc x) xs)"

definition cumprod :: "arith \<Rightarrow> fl list \<Rightarrow> fl list" where
  "cumprod A xs = cumprod_from A (Fin 1) xs"

text \<open>An integer column read as floats.\<close>

definition as_float :: "int list \<Rightarrow> fl list" where
  "as_float xs = map (\<lambda>k. Fin (real_of_int k)) xs"

section \<open>The table\<close>

text \<open>
  The DataFrame \<^verbatim>\<open>crypto_data\<close>: the Close column of finite prices it arrives with, and
  the nine columns the three functions of \<^verbatim>\<open>trading_strategy.py\<close> write into it.  A column
  that has not been written yet is \<open>None\<close>; reading it raises KeyError.  All three
  functions assign into the table they are given and return that same table, so a call
  is modelled as a function from the table before the call to the table after it,
  together with the exception raised, if any.  An exception does not undo the columns
  written before it.  Every column of a DataFrame has one value per row.  Writes through
  \<^verbatim>\<open>crypto_data[col].iloc[i] = v\<close> and \<^verbatim>\<open>crypto_data[col][k:] = v\<close> reach the table (pandas
  without copy-on-write, which is what the warning filter of \<^verbatim>\<open>main.py\<close> presumes).
\<close>

record frame =
  Close :: "real list"
  SMA_Short :: "fl list option"
  SMA_Long :: "fl list option"
  Signal :: "int list option"
  Position :: "fl list option"
  Managed_Position :: "int list option"
  Daily_Return :: "fl list option"
  Strategy_Return :: "fl list option"
  Cumulative_Market_Returns :: "fl list option"
  Cumulative_Strategy_Returns :: "fl list option"

datatype error = ValueError | OverflowError | KeyError string | IndexError | TypeError

type_synonym outcome = "frame \<times> error option"

text \<open>The table as the data source hands it over: prices only.\<close>

definition new_frame :: "real list \<Rightarrow> frame" where
  "new_frame closes =
     \<lparr>Close = closes, SMA_Short = None, SMA_Long = None, Signal = None, Position = None,
      Managed_Position = None, Daily_Return = None, Strategy_Return = None,
      Cumulative_Market_Returns = None, Cumulative_Strategy_Returns = None\<rparr>"

section \<open>Signal generation\<close>

text \<open>
  \<^verbatim>\<open>apply_moving_average_strategy\<close> (trading_strategy.py, lines 6 to 29).
  \<^verbatim>\<open>rolling\<close> raises ValueError on a negative window and OverflowError on a window of
  \<open>2 ^ 63\<close> or more, which is no 64-bit integer.  The slice \<^verbatim>\<open>[short_window:]\<close> starts at row
  \<open>short_window\<close>; when \<open>short_window\<close> exceeds the number of rows, the assignment of line
  24 raises ValueError (pandas takes the length of the slice for negative, which is not
  the length 0 of the value assigned), with the Signal column of zeros already written
  and the Position column not yet.
\<close>

definition apply_moving_average_strategy :: "arith \<Rightarrow> frame \<Rightarrow> int \<Rightarrow> int \<Rightarrow> outcome" where
  "apply_moving_average_strategy A crypto_data sw lw =
     (if sw < 0 then (crypto_data, Some ValueError)
      else if 2 ^ 63 \<le> sw then (crypto_data, Some OverflowError)
      else
        let sma_s = rolling_mean A (nat sw) (Close crypto_data);
            d1 = crypto_data\<lparr>SMA_Short := Some sma_s\<rparr>
        in if lw < 0 then (d1, Some ValueError)
           else if 2 ^ 63 \<le> lw then (d1, Some OverflowError)
           else
             let sma_l = rolling_mean A (nat lw) (Close d1);
                 d2 = d1\<lparr>SMA_Long := Some sma_l\<rparr>;
                 zeros = replicate (length (Close d2)) 0;
                 d3 = d2\<lparr>Signal := Some zeros\<rparr>
             in if length (Close d3) < nat sw then (d3, Some ValueError)
                else
                  let sig = take (nat sw) zeros
                              @ np_where_gt (drop (nat sw) sma_s) (drop (nat sw) sma_l);
                      d4 = d3\<lparr>Signal := Some sig\<rparr>;
                      d5 = d4\<lparr>Position :=
                                Some (fillna (Fin 0) (series_diff A (as_float sig)))\<rparr>
                  in (d5, None))"

section \<open>Risk management\<close>

text \<open>
  The body of the loop of \<^verbatim>\<open>apply_risk_management\<close> (lines 47 to 60) at row \<open>i\<close>, on the
  Managed_Position column \<open>mp\<close>: first the signal sets the row, then, when the row before
  holds 1, a close below the stop-loss level \<^verbatim>\<open>close[i-1] * (1 - stop_loss)\<close> or else above
  the take-profit level \<^verbatim>\<open>close[i-1] * (1 + take_profit)\<close> sets it back to 0.  The two
  levels are computed in doubles.
\<close>

definition stop_level :: "arith \<Rightarrow> real \<Rightarrow> real \<Rightarrow> fl" where
  "stop_level A c sl = f_mul A (Fin c) (f_sub A (Fin 1) (Fin sl))"

definition profit_level :: "arith \<Rightarrow> real \<Rightarrow> real \<Rightarrow> fl" where
  "profit_level A c tp = f_mul A (Fin c) (f_add A (Fin 1) (Fin tp))"

definition risk_step ::
    "arith \<Rightarrow> int list \<Rightarrow> real list \<Rightarrow> real \<Rightarrow> real \<Rightarrow> nat \<Rightarrow> int list \<Rightarrow> int list" where
  "risk_step A sig cl sl tp i mp =
     (let mp1 = (if sig ! i = 1 then mp[i := 1]
                 else if sig ! i = 0 then mp[i := 0]
                 else mp)
      in if mp1 ! (i - 1) = 1 then
           (if fl_lt (Fin (cl ! i)) (stop_level A (cl ! (i - 1)) sl) then mp1[i := 0]
            else if fl_gt (Fin (cl ! i)) (profit_level A (cl ! (i - 1)) tp) then mp1[i := 0]
            else mp1)
         else mp1)"

text \<open>
  \<^verbatim>\<open>apply_risk_management\<close> (lines 31 to 62).  The column is first set to 0 in every
  row; the loop runs over rows \<open>1\<close> to \<open>n - 1\<close>.  The Signal column is read in the first
  round of the loop, so a table without it raises KeyError only when it has two rows
  or more.
\<close>

definition apply_risk_management :: "arith \<Rightarrow> frame \<Rightarrow> real \<Rightarrow> real \<Rightarrow> outcome" where
  "apply_risk_management A crypto_data sl tp =
     (let n = length (Close crypto_data);
          d0 = crypto_data\<lparr>Managed_Position := Some (replicate n 0)\<rparr>
      in case Signal d0 of
           None \<Rightarrow> if n \<le> 1 then (d0, None) else (d0, Some (KeyError ''Signal''))
         | Some sig \<Rightarrow>
             (d0\<lparr>Managed_Position :=
                   Some (fold (risk_step A sig (Close d0) sl tp) [1..<n] (replicate n 0))\<rparr>,
              None))"

section \<open>Returns\<close>

text \<open>\<^verbatim>\<open>(1 + r).cumprod() - 1\<close> on a column of period returns.\<close>

definition cumulative_returns :: "arith \<Rightarrow> fl list \<Rightarrow> fl list" where
  "cumulative_returns A r =
     map (\<lambda>x. f_sub A x (Fin 1)) (cumprod A (map (f_add A (Fin 1)) r))"

text \<open>
  \<^verbatim>\<open>backtest_strategy\<close> (lines 64 to 84).  The Daily_Return column is written before the
  Managed_Position column is read, so a table without Managed_Position raises KeyError
  with Daily_Return already in it.
\<close>

definition backtest_strategy :: "arith \<Rightarrow> frame \<Rightarrow> outcome" where
  "backtest_strategy A crypto_data =
     (let dr = pct_change A (map Fin (Close crypto_data));
          d1 = crypto_data\<lparr>Daily_Return := Some dr\<rparr>
      in case Managed_Position d1 of
           None \<Rightarrow> (d1, Some (KeyError ''Managed_Position''))
         | Some mp \<Rightarrow>
             let sr = map2 (f_mul A) dr (shift1 (as_float mp));
                 d2 = d1\<lparr>Strategy_Return := Some sr\<rparr>;
                 d3 = d2\<lparr>Cumulative_Market_Returns := Some (cumulative_returns A dr)\<rparr>;
                 d4 = d3\<lparr>Cumulative_Strategy_Returns := Some (cumulative_returns A sr)\<rparr>
             in (d4, None))"

section \<open>Sharpe ratio\<close>

text \<open>
  Line 35 of \<^verbatim>\<open>metrics.py\<close>:
  \<^verbatim>\<open>(data['Strategy_Return'].mean() / data['Strategy_Return'].std()) * np.sqrt(252)\<close>.
  \<^verbatim>\<open>mean\<close> and \<^verbatim>\<open>std\<close> leave the missing values out; the mean of no value is NaN, and
  so is the sample standard deviation (one degree of freedom removed) of fewer than two
  values.  pandas takes the deviations as mean minus value.  The quotient is a division
  of numpy floats.
\<close>

definition dropna :: "fl list \<Rightarrow> fl list" where
  "dropna xs = filter (\<lambda>x. x \<noteq> NaN) xs"

definition series_mean :: "arith \<Rightarrow> fl list \<Rightarrow> fl" where
  "series_mean A xs =
     (let v = dropna xs in
      if v = [] then NaN else f_div A (f_sum A v) (Fin (real (length v))))"

definition series_std :: "arith \<Rightarrow> fl list \<Rightarrow> fl" where
  "series_std A xs =
     (let v = dropna xs; k = length v in
      if k \<le> 1 then NaN
      else
        let m = f_div A (f_sum A v) (Fin (real k));
            sq = map (\<lambda>x. f_mul A (f_sub A m x) (f_sub A m x)) v
        in f_sqrt A (f_div A (f_sum A sq) (Fin (real (k - 1)))))"

definition sharpe_ratio :: "arith \<Rightarrow> frame \<Rightarrow> error + fl" where
  "sharpe_ratio A data =
     (case Strategy_Return data of
        None \<Rightarrow> Inl (KeyError ''Strategy_Return'')
      | Some sr \<Rightarrow>
          Inr (f_mul A (f_div A (series_mean A sr) (series_std A sr)) (f_sqrt A (Fin 252))))"

section \<open>Grid search\<close>

record params =
  short_window :: int
  long_window :: int
  stop_loss :: real
  take_profit :: real

text \<open>
  The three calls every round of both search loops makes on the shared table
  (trading_strategy.py, lines 112 to 116; main.py, lines 38 to 42).
\<close>

definition run_pipeline :: "arith \<Rightarrow> frame \<Rightarrow> params \<Rightarrow> outcome" where
  "run_pipeline A crypto_data p =
     (case apply_moving_average_strategy A crypto_data (short_window p) (long_window p) of
        (d1, Some e) \<Rightarrow> (d1, Some e)
      | (d1, None) \<Rightarrow>
          (case apply_risk_management A d1 (stop_loss p) (take_profit p) of
             (d2, Some e) \<Rightarrow> (d2, Some e)
           | (d2, None) \<Rightarrow> backtest_strategy A d2))"

text \<open>
  The state of a search loop: the shared table, the best parameter set and its score so
  far, and the lines printed (one per scored parameter set, with its score).  In
  \<^verbatim>\<open>tune_hyperparameters\<close> the best parameter set starts as \<^verbatim>\<open>None\<close>, in
  \<^verbatim>\<open>hyperparameter_tuning\<close> as the empty dictionary; both are \<open>None\<close> here.
\<close>

record search_state =
  table :: frame
  best_params :: "params option"
  best_return :: fl
  printed :: "(params \<times> fl) list"

text \<open>
  One round of the loop (trading_strategy.py, lines 111 to 127; main.py, lines 37 to
  61).  \<^verbatim>\<open>iloc[-1]\<close> raises IndexError on a table without rows.
\<close>

definition search_step ::
    "arith \<Rightarrow> params \<Rightarrow> search_state \<Rightarrow> search_state \<times> error option" where
  "search_step A p st =
     (case run_pipeline A (table st) p of
        (d, Some e) \<Rightarrow> (st\<lparr>table := d\<rparr>, Some e)
      | (d, None) \<Rightarrow>
          (case Cumulative_Strategy_Returns d of
             None \<Rightarrow> (st\<lparr>table := d\<rparr>, Some (KeyError ''Cumulative_Strategy_Returns''))
           | Some col \<Rightarrow>
               if col = [] then (st\<lparr>table := d\<rparr>, Some IndexError)
               else
                 let cumulative_return = last col;
                     st1 = st\<lparr>table := d, printed := printed st @ [(p, cumulative_return)]\<rparr>
                 in if fl_gt cumulative_return (best_return st)
                    then (st1\<lparr>best_return := cumulative_return, best_params := Some p\<rparr>, None)
                    else (st1, None)))"

fun search_loop ::
    "arith \<Rightarrow> params list \<Rightarrow> search_state \<Rightarrow> search_state \<times> error option" where
  "search_loop A [] st = (st, None)"
| "search_loop A (p # ps) st =
     (case search_step A p st of
        (st1, Some e) \<Rightarrow> (st1, Some e)
      | (st1, None) \<Rightarrow> search_loop A ps st1)"

definition initial_state :: "frame \<Rightarrow> search_state" where
  "initial_state crypto_data =
     \<lparr>table = crypto_data, best_params = None, best_return = NInf, printed = []\<rparr>"

text \<open>
  scikit-learn's \<^verbatim>\<open>ParameterGrid\<close> refuses an empty list of values with ValueError, and
  enumerates the product with the keys sorted by name: \<^verbatim>\<open>long_window\<close> is the outermost
  axis, then \<^verbatim>\<open>short_window\<close>, \<^verbatim>\<open>stop_loss\<close>, and \<^verbatim>\<open>take_profit\<close> innermost.
\<close>

definition ParameterGrid :: "int list \<Rightarrow> int list \<Rightarrow> real list \<Rightarrow> real list \<Rightarrow> error + params list" where
  "ParameterGrid sws lws sls tps =
     (if sws = [] \<or> lws = [] \<or> sls = [] \<or> tps = [] then Inl ValueError
      else Inr (concat (map (\<lambda>l. concat (map (\<lambda>s. concat (map (\<lambda>x. map (\<lambda>t.
             \<lparr>short_window = s, long_window = l, stop_loss = x, take_profit = t\<rparr>)
             tps) sls)) sws)) lws)))"

text \<open>
  \<^verbatim>\<open>tune_hyperparameters\<close> (trading_strategy.py, lines 86 to 130).  The value the Python
  function returns is \<open>best_params\<close> of the final state.
\<close>

definition tune_hyperparameters ::
    "arith \<Rightarrow> frame \<Rightarrow> int list \<Rightarrow> int list \<Rightarrow> real list \<Rightarrow> real list
       \<Rightarrow> search_state \<times> error option" where
  "tune_hyperparameters A crypto_data sws lws sls tps =
     (case ParameterGrid sws lws sls tps of
        Inl e \<Rightarrow> (initial_state crypto_data, Some e)
      | Inr param_grid \<Rightarrow> search_loop A param_grid (initial_state crypto_data))"

text \<open>
  Four nested loops, \<^verbatim>\<open>short_window\<close> outermost, then \<^verbatim>\<open>long_window\<close>, \<^verbatim>\<open>stop_loss\<close> and
  \<^verbatim>\<open>take_profit\<close>: the order of main.py, lines 33 to 36, and of the specification.
\<close>

definition nested_loops :: "int list \<Rightarrow> int list \<Rightarrow> real list \<Rightarrow> real list \<Rightarrow> params list" where
  "nested_loops sws lws sls tps =
     concat (map (\<lambda>s. concat (map (\<lambda>l. concat (map (\<lambda>x. map (\<lambda>t.
       \<lparr>short_window = s, long_window = l, stop_loss = x, take_profit = t\<rparr>)
       tps) sls)) lws)) sws)"

text \<open>
  The grid of \<^verbatim>\<open>hyperparameter_tuning\<close> (main.py, lines 23 to 28): \<^verbatim>\<open>range(10, 31, 5)\<close>,
  \<^verbatim>\<open>range(50, 101, 10)\<close> and the two lists of fractions.
\<close>

definition main_grid :: "params list" where
  "main_grid =
     nested_loops [10, 15, 20, 25, 30] [50, 60, 70, 80, 90, 100]
       [3 / 100, 5 / 100, 7 / 100] [5 / 100, 10 / 100, 15 / 100]"

text \<open>
  \<^verbatim>\<open>hyperparameter_tuning\<close> (main.py, lines 9 to 67).  \<^verbatim>\<open>best_results\<close> is set together
  with \<^verbatim>\<open>best_params\<close>, so it is still \<^verbatim>\<open>None\<close> after the loop exactly when no parameter
  set was taken; \<^verbatim>\<open>print_performance_metrics(None)\<close> then raises TypeError.  On a table
  with rows, indexed by date as the data source delivers it, the report only prints.  The
  Python function returns \<open>best_params\<close> and \<open>best_return\<close> of the final state.
\<close>

definition hyperparameter_tuning :: "arith \<Rightarrow> frame \<Rightarrow> search_state \<times> error option" where
  "hyperparameter_tuning A crypto_data =
     (case search_loop A main_grid (initial_state crypto_data) of
        (st, Some e) \<Rightarrow> (st, Some e)
      | (st, None) \<Rightarrow>
          if best_params st = None then (st, Some TypeError) else (st, None))"

section \<open>Sequences of calls\<close>

text \<open>
  A caller may apply the three functions to one table in any order and any number of
  times; a raised exception ends the sequence.
\<close>

datatype call = Call_signal int int | Call_risk real real | Call_backtest

fun do_call :: "arith \<Rightarrow> call \<Rightarrow> frame \<Rightarrow> outcome" where
  "do_call A (Call_signal sw lw) d = apply_moving_average_strategy A d sw lw"
| "do_call A (Call_risk sl tp) d = apply_risk_management A d sl tp"
| "do_call A Call_backtest d = backtest_strategy A d"

fun run_calls :: "arith \<Rightarrow> call list \<Rightarrow> frame \<Rightarrow> outcome" where
  "run_calls A [] d = (d, None)"
| "run_calls A (c # cs) d =
     (case do_call A c d of
        (d1, Some e) \<Rightarrow> (d1, Some e)
      | (d1, None) \<Rightarrow> run_calls A cs d1)"

section \<open>Closed forms and example tables\<close>

text \<open>
  The windows on which signal generation raises nothing, on a table of \<open>n\<close> rows, and the
  exception it raises on the others.
\<close>

definition windows_ok :: "nat \<Rightarrow> int \<Rightarrow> int \<Rightarrow> bool" where
  "windows_ok n sw lw = (0 \<le> sw \<and> sw < 2 ^ 63 \<and> 0 \<le> lw \<and> lw < 2 ^ 63 \<and> nat sw \<le> n)"

definition window_error :: "int \<Rightarrow> int \<Rightarrow> error" where
  "window_error sw lw =
     (if sw < 0 then ValueError
      else if 2 ^ 63 \<le> sw then OverflowError
      else if lw < 0 then ValueError
      else if 2 ^ 63 \<le> lw then OverflowError
      else ValueError)"

text \<open>The Managed_Position column after the first \<open>k - 1\<close> rounds of the loop.\<close>

definition risk_run ::
    "arith \<Rightarrow> int list \<Rightarrow> real list \<Rightarrow> real \<Rightarrow> real \<Rightarrow> nat \<Rightarrow> nat \<Rightarrow> int list" where
  "risk_run A sig cl sl tp n k = fold (risk_step A sig cl sl tp) [1..<k] (replicate n 0)"

text \<open>Three days, bought on the second at 100, with the given close on the third.\<close>

definition ex1 :: "real \<Rightarrow> frame" where
  "ex1 c = (new_frame [90, 100, c])\<lparr>Signal := Some [0, 1, 1]\<rparr>"

text \<open>
  The rolling mean of window \<open>w\<close> at row \<open>i\<close>, and the Signal column and the table that
  signal generation leaves, as functions of the Close column and the two windows.
\<close>

definition sma :: "arith \<Rightarrow> real list \<Rightarrow> nat \<Rightarrow> nat \<Rightarrow> fl" where
  "sma A c w i = f_mean A w (take (Suc i) c)"

definition signal_col :: "arith \<Rightarrow> real list \<Rightarrow> int \<Rightarrow> int \<Rightarrow> int list" where
  "signal_col A c sw lw =
     take (nat sw) (replicate (length c) 0)
       @ np_where_gt (drop (nat sw) (rolling_mean A (nat sw) c))
           (drop (nat sw) (rolling_mean A (nat lw) c))"

definition signal_frame :: "arith \<Rightarrow> frame \<Rightarrow> int \<Rightarrow> int \<Rightarrow> frame" where
  "signal_frame A d sw lw =
     d\<lparr>SMA_Short := Some (rolling_mean A (nat sw) (Close d)),
       SMA_Long := Some (rolling_mean A (nat lw) (Close d)),
       Signal := Some (signal_col A (Close d) sw lw),
       Position :=
         Some (fillna (Fin 0) (series_diff A (as_float (signal_col A (Close d) sw lw))))\<rparr>"

text \<open>
  The columns written by the backtest and by a whole run of the three calls, as functions
  of the Close column, the Managed_Position column and the parameters; the score of a
  run is the last row of its cumulative strategy return.
\<close>

definition daily_col :: "arith \<Rightarrow> real list \<Rightarrow> fl list" where
  "daily_col A c = pct_change A (map Fin c)"

definition strategy_col :: "arith \<Rightarrow> real list \<Rightarrow> int list \<Rightarrow> fl list" where
  "strategy_col A c mp = map2 (f_mul A) (daily_col A c) (shift1 (as_float mp))"

definition backtest_frame :: "arith \<Rightarrow> frame \<Rightarrow> int list \<Rightarrow> frame" where
  "backtest_frame A d mp =
     d\<lparr>Daily_Return := Some (daily_col A (Close d)),
       Strategy_Return := Some (strategy_col A (Close d) mp),
       Cumulative_Market_Returns := Some (cumulative_returns A (daily_col A (Close d))),
       Cumulative_Strategy_Returns :=
         Some (cumulative_returns A (strategy_col A (Close d) mp))\<rparr>"

definition managed_col :: "arith \<Rightarrow> real list \<Rightarrow> params \<Rightarrow> int list" where
  "managed_col A c p =
     risk_run A (signal_col A c (short_window p) (long_window p)) c (stop_loss p)
       (take_profit p) (length c) (length c)"

definition pipeline_frame :: "arith \<Rightarrow> real list \<Rightarrow> params \<Rightarrow> frame" where
  "pipeline_frame A c p =
     backtest_frame A
       ((signal_frame A (new_frame c) (short_window p) (long_window p))
          \<lparr>Managed_Position := Some (managed_col A c p)\<rparr>)
       (managed_col A c p)"

definition score :: "arith \<Rightarrow> real list \<Rightarrow> params \<Rightarrow> fl" where
  "score A c p = last (cumulative_returns A (strategy_col A c (managed_col A c p)))"

text \<open>The table \<open>ex1 94\<close> with its managed positions, before the backtest.\<close>

definition ex2 :: frame where
  "ex2 = (ex1 94)\<lparr>Managed_Position := Some [0, 1, 0]\<rparr>"

text \<open>
  The choice the search loops make, on the list of scored parameter sets: a score
  replaces the best so far when it is strictly greater.
\<close>

fun select_best :: "(params \<times> fl) list \<Rightarrow> params option \<times> fl \<Rightarrow> params option \<times> fl" where
  "select_best [] b = b"
| "select_best ((p, s) # xs) (bp, br) =
     select_best xs (if fl_gt s br then (Some p, s) else (bp, br))"

definition scored :: "arith \<Rightarrow> real list \<Rightarrow> params list \<Rightarrow> (params \<times> fl) list" where
  "scored A c ps = map (\<lambda>p. (p, score A c p)) ps"

text \<open>
  The parameter sets of the Cartesian product of four lists, and the example of the
  specification: five closes, and a parameter set with the default stop loss and take
  profit.
\<close>

definition product_set :: "int list \<Rightarrow> int list \<Rightarrow> real list \<Rightarrow> real list \<Rightarrow> params set" where
  "product_set sws lws sls tps =
     {p. short_window p \<in> set sws \<and> long_window p \<in> set lws \<and>
         stop_loss p \<in> set sls \<and> take_profit p \<in> set tps}"

definition ex_prices :: "real list" where
  "ex_prices = [100, 105, 100, 95, 90]"

definition ex_params :: "int \<Rightarrow> int \<Rightarrow> params" where
  "ex_params s l = \<lparr>short_window = s, long_window = l, stop_loss = 5 / 100, take_profit = 1 / 10\<rparr>"

text \<open>The closes of the example for four days, with another future after them.\<close>

definition ex_future :: "real list" where
  "ex_future = [100, 105, 100, 95, 200, 300]"

text \<open>
  Four closes on which the windows 1 and 3 lose and every other pair of a window of 1 or
  2 with a window of 3 or 4 earns nothing.
\<close>

definition ex_tie :: "real list" where
  "ex_tie = [8, 2, 6, 3]"

text \<open>
  The returns of a series without movement: undefined in the first row, 0 after it.
\<close>

definition flat_returns :: "nat \<Rightarrow> fl list" where
  "flat_returns n = (if n = 0 then [] else NaN # replicate (n - 1) (Fin 0))"

section \<open>Properties of the arithmetic\<close>

lemma fl_gt_irrefl: "\<not> fl_gt x x"
  by (cases x) simp_all

lemma fl_gt_NaN [simp]: "\<not> fl_gt x NaN"
  by (cases x) simp_all

lemma fl_gt_trans: "fl_gt a b \<Longrightarrow> fl_gt b c \<Longrightarrow> fl_gt a c"
  by (cases a; cases b; cases c) simp_all

lemma fl_gt_not_NaN: "fl_gt a b \<Longrightarrow> a \<noteq> NaN \<and> b \<noteq> NaN"
  by (cases a; cases b) simp_all

lemma fl_gt_above: "\<not> fl_gt r b \<Longrightarrow> fl_gt s b \<Longrightarrow> r \<noteq> NaN \<Longrightarrow> fl_gt s r"
  by (cases r; cases b; cases s) simp_all

lemma exact_ops [simp]:
  "f_add exact = fl_add" "f_sub exact = fl_sub" "f_mul exact = fl_mul" "f_div exact = fl_div"
  "f_sum exact = fl_sum" "f_sqrt exact = fl_sqrt"
  "f_mean exact w xs = Fin (sum_list (drop (length xs - w) xs) / real w)"
  by (simp_all add: exact_def)

lemma nan_propagates_exact: "nan_propagates exact"
proof -
  have "\<And>x. fl_add x NaN = NaN" "\<And>x. fl_mul x NaN = NaN" "\<And>x. fl_div x NaN = NaN"
    subgoal for x by (cases x) simp_all
    subgoal for x by (cases x) simp_all
    subgoal for x by (cases x) simp_all
    done
  then show ?thesis by (simp add: nan_propagates_def fl_sub_def)
qed

lemma fl_sum_zeros: "fl_sum (replicate m (Fin 0)) = Fin 0"
proof -
  have "\<And>a. foldl fl_add (Fin a) (replicate m (Fin 0)) = Fin a"
    by (induction m) simp_all
  then show ?thesis by (simp add: fl_sum_def)
qed

lemma exact_on_zero_one_exact: "exact_on_zero_one exact"
  by (simp add: exact_on_zero_one_def fl_sub_def inf_of_sign_def fl_sum_zeros)


section \<open>The risk-managed position\<close>

lemma risk_step_length: "length (risk_step A sig cl sl tp i mp) = length mp"
  by (simp add: risk_step_def Let_def)

lemma risk_step_other: "j \<noteq> i \<Longrightarrow> risk_step A sig cl sl tp i mp ! j = mp ! j"
  by (simp add: risk_step_def Let_def)

lemma risk_step_self:
  assumes "i < length mp" "1 \<le> i" "mp ! i = 0"
  shows "risk_step A sig cl sl tp i mp ! i =
     (let target = (if sig ! i = 1 then 1 else 0) in
      if mp ! (i - 1) = 1 then
        (if fl_lt (Fin (cl ! i)) (stop_level A (cl ! (i - 1)) sl) then 0
         else if fl_gt (Fin (cl ! i)) (profit_level A (cl ! (i - 1)) tp) then 0
         else target)
      else target)"
  using assms by (simp add: risk_step_def Let_def)

lemma risk_run_Suc: "1 \<le> k \<Longrightarrow> risk_run A sig cl sl tp n (Suc k) = risk_step A sig cl sl tp k (risk_run A sig cl sl tp n k)"
  by (simp add: risk_run_def)

lemma risk_run_length: "length (risk_run A sig cl sl tp n k) = n"
  unfolding risk_run_def
  by (induction k) (simp_all add: risk_step_length)

lemma risk_run_untouched: "k \<le> j \<or> j = 0 \<Longrightarrow> j < n \<Longrightarrow> risk_run A sig cl sl tp n k ! j = 0"
proof (induction k)
  case 0
  then show ?case by (simp add: risk_run_def)
next
  case (Suc k)
  show ?case
  proof (cases "1 \<le> k")
    case True
    have "j \<noteq> k" using Suc.prems True by auto
    moreover have "risk_run A sig cl sl tp n k ! j = 0" using Suc by auto
    ultimately show ?thesis using True by (simp add: risk_run_Suc risk_step_other)
  next
    case False
    then show ?thesis using Suc.prems by (simp add: risk_run_def)
  qed
qed

lemma risk_run_stable: "t < k \<Longrightarrow> k \<le> k' \<Longrightarrow> risk_run A sig cl sl tp n k' ! t = risk_run A sig cl sl tp n k ! t"
proof (induction k')
  case 0
  then show ?case by simp
next
  case (Suc k')
  show ?case
  proof (cases "k = Suc k'")
    case True
    then show ?thesis by simp
  next
    case False
    then have le: "k \<le> k'" using Suc.prems by simp
    then have "1 \<le> k'" "t \<noteq> k'" using Suc.prems by auto
    then show ?thesis using Suc.IH[OF Suc.prems(1) le] by (simp add: risk_run_Suc risk_step_other)
  qed
qed

lemma risk_run_nth:
  assumes "1 \<le> t" "t < n"
  shows "risk_run A sig cl sl tp n n ! t =
     (let target = (if sig ! t = 1 then 1 else 0) in
      if risk_run A sig cl sl tp n n ! (t - 1) = 1 then
        (if fl_lt (Fin (cl ! t)) (stop_level A (cl ! (t - 1)) sl) then 0
         else if fl_gt (Fin (cl ! t)) (profit_level A (cl ! (t - 1)) tp) then 0
         else target)
      else target)"
proof -
  let ?M = "risk_run A sig cl sl tp n"
  have a: "?M n ! t = ?M (Suc t) ! t" using assms by (intro risk_run_stable) auto
  have b: "?M n ! (t - 1) = ?M t ! (t - 1)" using assms by (intro risk_run_stable) auto
  have c: "?M t ! t = 0" using assms by (intro risk_run_untouched) auto
  have d: "t < length (?M t)" using assms by (simp add: risk_run_length)
  show ?thesis unfolding a b
    using risk_step_self[OF d assms(1) c, of A sig cl sl tp] assms by (simp add: risk_run_Suc)
qed






section \<open>The columns of signal generation and the closed forms of the calls\<close>

lemma rolling_mean_length: "length (rolling_mean A w xs) = length xs"
  by (simp add: rolling_mean_def)

lemma rolling_mean_nth:
  "i < length xs \<Longrightarrow>
   rolling_mean A w xs ! i = (if 0 < w \<and> w \<le> Suc i then sma A xs w i else NaN)"
  by (simp add: rolling_mean_def sma_def)

lemma signal_col_length: "length (signal_col A c sw lw) = length c"
  by (simp add: signal_col_def np_where_gt_def rolling_mean_length)

lemma signal_col_nth:
  assumes "i < length c"
  shows "signal_col A c sw lw ! i =
     (if nat sw \<le> i \<and> fl_gt (rolling_mean A (nat sw) c ! i) (rolling_mean A (nat lw) c ! i) then 1 else 0)"
proof (cases "i < nat sw")
  case True
  then show ?thesis using assms by (simp add: signal_col_def nth_append)
next
  case False
  then have "signal_col A c sw lw ! i =
      np_where_gt (drop (nat sw) (rolling_mean A (nat sw) c)) (drop (nat sw) (rolling_mean A (nat lw) c)) ! (i - nat sw)"
    using assms by (simp add: signal_col_def nth_append min_def)
  also have "\<dots> = (if fl_gt (rolling_mean A (nat sw) c ! i) (rolling_mean A (nat lw) c ! i) then 1 else 0)"
    using False assms by (simp add: np_where_gt_def rolling_mean_length)
  finally show ?thesis using False by simp
qed

lemma signal_col_up:
  assumes "i < length c"
  shows "signal_col A c sw lw ! i = 1 \<longleftrightarrow>
     0 < sw \<and> 0 < lw \<and> nat sw \<le> i \<and> nat lw \<le> Suc i \<and> fl_gt (sma A c (nat sw) i) (sma A c (nat lw) i)"
  using assms by (auto simp add: signal_col_nth rolling_mean_nth)


lemma apply_moving_average_strategy_ok:
  assumes "windows_ok (length (Close d)) sw lw"
  shows "apply_moving_average_strategy A d sw lw = (signal_frame A d sw lw, None)"
  using assms
  by (simp add: windows_ok_def apply_moving_average_strategy_def signal_frame_def signal_col_def
      Let_def)

lemma apply_moving_average_strategy_error:
  assumes "\<not> windows_ok (length (Close d)) sw lw"
  shows "snd (apply_moving_average_strategy A d sw lw) = Some (window_error sw lw)"
  using assms
  by (auto simp add: windows_ok_def window_error_def apply_moving_average_strategy_def Let_def)

lemma apply_moving_average_strategy_Close:
  "Close (fst (apply_moving_average_strategy A d sw lw)) = Close d"
  by (simp add: apply_moving_average_strategy_def Let_def)

lemma apply_risk_management_eq:
  "apply_risk_management A d sl tp =
     (case Signal d of
        None \<Rightarrow> (d\<lparr>Managed_Position := Some (replicate (length (Close d)) 0)\<rparr>,
                 if length (Close d) \<le> 1 then None else Some (KeyError ''Signal''))
      | Some sig \<Rightarrow>
          (d\<lparr>Managed_Position :=
               Some (risk_run A sig (Close d) sl tp (length (Close d)) (length (Close d)))\<rparr>, None))"
  by (simp add: apply_risk_management_def risk_run_def Let_def split: option.splits)

section \<open>Errors of signal generation and of the risk overlay\<close>





text \<open>
  Claim C6, amended.  The risk overlay does not check \<open>stop_loss\<close> or \<open>take_profit\<close>: whether it
  raises does not depend on them.  It raises only KeyError, on a table of two rows or more
  without a Signal column; on a table with a Signal column it succeeds for all real values
  of both parameters, inside or outside the interval (0, 1).
\<close>

theorem risk_overlay_never_invalid_parameter:
  "snd (apply_risk_management A d sl tp) =
     (if Signal d = None \<and> 1 < length (Close d) then Some (KeyError ''Signal'') else None) \<and>
   (Signal d \<noteq> None \<longrightarrow> snd (apply_risk_management A d sl tp) = None)"
  by (auto simp add: apply_risk_management_eq split: option.splits)

lemma ex1_wild: "apply_risk_management exact (ex1 94) 2 (- 1) = ((ex1 94)\<lparr>Managed_Position := Some [0, 1, 0]\<rparr>, None)"
  by (simp add: ex1_def new_frame_def apply_risk_management_def risk_step_def stop_level_def
      profit_level_def fl_lt_def fl_sub_def Let_def)

theorem invalid_risk_parameter_counterexample:
  "\<not> (0 < (2::real) \<and> (2::real) < 1) \<and> \<not> (0 < (- 1::real) \<and> (- 1::real) < 1) \<and>
   apply_risk_management exact (ex1 94) 2 (- 1) = ((ex1 94)\<lparr>Managed_Position := Some [0, 1, 0]\<rparr>, None)"
  by (simp add: ex1_wild)

theorem risk_overlay_never_invalid_parameter_witness:
  "Signal (ex1 94) \<noteq> None \<and> snd (apply_risk_management exact (ex1 94) 2 (- 1)) = None"
  using risk_overlay_never_invalid_parameter[of exact "ex1 94" 2 "- 1"]
  by (simp add: ex1_def)

section \<open>The trend flag\<close>

text \<open>
  Claim C7, amended.  On windows that raise nothing (neither negative nor \<open>2 ^ 63\<close> or
  more, and \<open>short_window\<close> at most the number of rows), the trend flag of row \<open>i\<close> is 1
  exactly when \<open>i \<ge> short_window\<close>, both windows are positive, the long window is full at
  row \<open>i\<close> (\<open>long_window \<le> i + 1\<close>) and the short rolling mean, as pandas computes it,
  exceeds the long one; otherwise it is 0.  For \<open>short_window < long_window\<close> the first row
  that is evaluated is row \<open>long_window - 1\<close>, the first with a full long window, not row
  \<open>long_window\<close>.
\<close>

theorem trend_flag_rule:
  assumes "windows_ok (length (Close d)) sw lw" and "i < length (Close d)"
  shows "\<exists>sig. apply_moving_average_strategy A d sw lw = (signal_frame A d sw lw, None) \<and>
           Signal (signal_frame A d sw lw) = Some sig \<and> length sig = length (Close d) \<and>
           (sig ! i = 1 \<or> sig ! i = 0) \<and>
           (sig ! i = 1 \<longleftrightarrow>
              0 < sw \<and> 0 < lw \<and> nat sw \<le> i \<and> nat lw \<le> Suc i \<and>
              fl_gt (sma A (Close d) (nat sw) i) (sma A (Close d) (nat lw) i)) \<and>
           (sw < lw \<longrightarrow>
              (sig ! i = 1 \<longleftrightarrow>
                 0 < sw \<and> nat lw - 1 \<le> i \<and>
                 fl_gt (sma A (Close d) (nat sw) i) (sma A (Close d) (nat lw) i)))"
proof -
  let ?sig = "signal_col A (Close d) sw lw"
  have w: "0 \<le> sw" "0 \<le> lw" using assms(1) by (simp_all add: windows_ok_def)
  have a: "apply_moving_average_strategy A d sw lw = (signal_frame A d sw lw, None)"
    using assms(1) by (rule apply_moving_average_strategy_ok)
  have b: "Signal (signal_frame A d sw lw) = Some ?sig" by (simp add: signal_frame_def)
  have c: "length ?sig = length (Close d)" by (rule signal_col_length)
  have d: "?sig ! i = 1 \<or> ?sig ! i = 0" using assms(2) by (simp add: signal_col_nth)
  have e: "?sig ! i = 1 \<longleftrightarrow>
              0 < sw \<and> 0 < lw \<and> nat sw \<le> i \<and> nat lw \<le> Suc i \<and>
              fl_gt (sma A (Close d) (nat sw) i) (sma A (Close d) (nat lw) i)"
    using assms(2) by (rule signal_col_up)
  have f: "sw < lw \<longrightarrow>
              (?sig ! i = 1 \<longleftrightarrow>
                 0 < sw \<and> nat lw - 1 \<le> i \<and>
                 fl_gt (sma A (Close d) (nat sw) i) (sma A (Close d) (nat lw) i))"
    unfolding e using w by auto
  show ?thesis using a b c d e f by blast
qed

lemma ex_spec_signal:
  "apply_moving_average_strategy exact (new_frame [100, 105, 100, 95, 90]) 2 3 =
     ((new_frame [100, 105, 100, 95, 90])\<lparr>
        SMA_Short := Some [NaN, Fin (205 / 2), Fin (205 / 2), Fin (195 / 2), Fin (185 / 2)],
        SMA_Long := Some [NaN, NaN, Fin (305 / 3), Fin 100, Fin 95],
        Signal := Some [0, 0, 1, 0, 0],
        Position := Some [Fin 0, Fin 0, Fin 1, Fin (- 1), Fin 0]\<rparr>, None)"
  by (simp add: apply_moving_average_strategy_def new_frame_def rolling_mean_def np_where_gt_def
      fillna_def series_diff_def as_float_def shift1_def fl_sub_def Let_def)

theorem trend_flag_counterexample:
  "Signal (fst (apply_moving_average_strategy exact (new_frame [100, 105, 100, 95, 90]) 2 3))
     = Some [0, 0, 1, 0, 0] \<and> [0, 0, 1, 0, 0 :: int] ! 2 = 1 \<and> \<not> ((3::nat) \<le> 2)"
  by (simp add: ex_spec_signal)

theorem trend_flag_rule_witness:
  "windows_ok (length (Close (new_frame [100, 105, 100, 95, 90]))) 2 3 \<and>
   2 < length (Close (new_frame [100, 105, 100, 95, 90])) \<and>
   apply_moving_average_strategy exact (new_frame [100, 105, 100, 95, 90]) 2 3
     = (signal_frame exact (new_frame [100, 105, 100, 95, 90]) 2 3, None) \<and>
   Signal (signal_frame exact (new_frame [100, 105, 100, 95, 90]) 2 3) = Some [0, 0, 1, 0, 0]"
proof -
  have h: "2 < length (Close (new_frame [100, 105, 100, 95, 90]))" by (simp add: new_frame_def)
  have w: "windows_ok (length (Close (new_frame [100, 105, 100, 95, 90]))) 2 3"
    by (simp add: new_frame_def windows_ok_def)
  from trend_flag_rule[OF w h, of exact]
  have run: "apply_moving_average_strategy exact (new_frame [100, 105, 100, 95, 90]) 2 3
     = (signal_frame exact (new_frame [100, 105, 100, 95, 90]) 2 3, None)" by simp
  have "Signal (signal_frame exact (new_frame [100, 105, 100, 95, 90]) 2 3)
     = Signal (fst (apply_moving_average_strategy exact (new_frame [100, 105, 100, 95, 90]) 2 3))"
    by (simp add: run)
  also have "\<dots> = Some [0, 0, 1, 0, 0]"
    by (simp add: ex_spec_signal)
  finally show ?thesis using h w run by simp
qed

section \<open>Effects of the calls on the table\<close>

lemma backtest_strategy_eq:
  "backtest_strategy A d =
     (case Managed_Position d of
        None \<Rightarrow> (d\<lparr>Daily_Return := Some (daily_col A (Close d))\<rparr>, Some (KeyError ''Managed_Position''))
      | Some mp \<Rightarrow> (backtest_frame A d mp, None))"
  by (simp add: backtest_strategy_def backtest_frame_def daily_col_def strategy_col_def Let_def
      split: option.splits)

lemma run_pipeline_ok:
  assumes "windows_ok (length (Close d)) (short_window p) (long_window p)"
  shows "run_pipeline A d p = (pipeline_frame A (Close d) p, None)"
  using assms
  by (cases d)
     (simp add: run_pipeline_def apply_moving_average_strategy_ok apply_risk_management_eq
        backtest_strategy_eq signal_frame_def pipeline_frame_def backtest_frame_def managed_col_def
        new_frame_def)

lemma run_pipeline_error:
  assumes "\<not> windows_ok (length (Close d)) (short_window p) (long_window p)"
  shows "snd (run_pipeline A d p) = Some (window_error (short_window p) (long_window p))"
proof -
  obtain d1 r where s: "apply_moving_average_strategy A d (short_window p) (long_window p) = (d1, r)"
    by (cases "apply_moving_average_strategy A d (short_window p) (long_window p)")
  then have "r = Some (window_error (short_window p) (long_window p))"
    using apply_moving_average_strategy_error[OF assms, of A] by simp
  then show ?thesis using s by (simp add: run_pipeline_def)
qed

lemma pipeline_frame_Close: "Close (pipeline_frame A c p) = c"
  by (simp add: pipeline_frame_def backtest_frame_def signal_frame_def new_frame_def)

lemma run_pipeline_Close: "Close (fst (run_pipeline A d p)) = Close d"
proof (cases "windows_ok (length (Close d)) (short_window p) (long_window p)")
  case True
  then show ?thesis by (simp add: run_pipeline_ok pipeline_frame_Close)
next
  case False
  obtain d1 r where s: "apply_moving_average_strategy A d (short_window p) (long_window p) = (d1, r)"
    by (cases "apply_moving_average_strategy A d (short_window p) (long_window p)")
  then have r: "r = Some (window_error (short_window p) (long_window p))"
    using apply_moving_average_strategy_error[OF False, of A] by simp
  have "Close d1 = Close d"
    using apply_moving_average_strategy_Close[of A d "short_window p" "long_window p"] s by simp
  then show ?thesis using s r by (simp add: run_pipeline_def)
qed

lemma run_pipeline_done:
  assumes "run_pipeline A d p = (d', None)"
  shows "windows_ok (length (Close d)) (short_window p) (long_window p) \<and>
         d' = pipeline_frame A (Close d) p"
proof (cases "windows_ok (length (Close d)) (short_window p) (long_window p)")
  case True
  then show ?thesis using assms by (simp add: run_pipeline_ok)
next
  case False
  then show ?thesis using run_pipeline_error[OF False, of A] assms by simp
qed

lemma do_call_Close: "Close (fst (do_call A c d)) = Close d"
  by (cases c)
     (simp_all add: apply_moving_average_strategy_Close apply_risk_management_eq
        backtest_strategy_eq backtest_frame_def split: option.splits)

lemma run_calls_Close: "Close (fst (run_calls A cs d)) = Close d"
proof (induction cs arbitrary: d)
  case Nil
  then show ?case by simp
next
  case (Cons c cs)
  show ?case
  proof (cases "do_call A c d")
    case (Pair d1 r)
    then have "Close d1 = Close d" using do_call_Close[of A c d] by simp
    then show ?thesis using Pair Cons.IH[of d1] by (cases r) simp_all
  qed
qed

text \<open>
  Claim C3, amended.  The backtest writes into the table it is given: it sets the
  Daily_Return column and, when the table has a Managed_Position column, the
  Strategy_Return, Cumulative_Market_Returns and Cumulative_Strategy_Returns columns.
  It leaves the Close, SMA_Short, SMA_Long, Signal, Position and Managed_Position columns
  as they were, and the columns it writes are functions of the Close and
  Managed_Position columns alone.
\<close>

theorem backtest_frame_effect:
  "Close (fst (backtest_strategy A d)) = Close d \<and>
   SMA_Short (fst (backtest_strategy A d)) = SMA_Short d \<and>
   SMA_Long (fst (backtest_strategy A d)) = SMA_Long d \<and>
   Signal (fst (backtest_strategy A d)) = Signal d \<and>
   Position (fst (backtest_strategy A d)) = Position d \<and>
   Managed_Position (fst (backtest_strategy A d)) = Managed_Position d \<and>
   Daily_Return (fst (backtest_strategy A d)) = Some (daily_col A (Close d)) \<and>
   (Managed_Position d = Some mp \<longrightarrow>
      snd (backtest_strategy A d) = None \<and>
      Strategy_Return (fst (backtest_strategy A d)) = Some (strategy_col A (Close d) mp) \<and>
      Cumulative_Market_Returns (fst (backtest_strategy A d))
        = Some (cumulative_returns A (daily_col A (Close d))) \<and>
      Cumulative_Strategy_Returns (fst (backtest_strategy A d))
        = Some (cumulative_returns A (strategy_col A (Close d) mp)))"
  by (simp add: backtest_strategy_eq backtest_frame_def split: option.splits)

lemma ex2_backtest:
  "backtest_strategy exact ex2 =
     (ex2\<lparr>Daily_Return := Some [NaN, Fin (1 / 9), Fin (- 6 / 100)],
          Strategy_Return := Some [NaN, Fin 0, Fin (- 6 / 100)],
          Cumulative_Market_Returns := Some [NaN, Fin (1 / 9), Fin (2 / 45)],
          Cumulative_Strategy_Returns := Some [NaN, Fin 0, Fin (- 6 / 100)]\<rparr>, None)"
  by (simp add: ex2_def ex1_def new_frame_def backtest_strategy_def pct_change_def shift1_def
      as_float_def cumulative_returns_def cumprod_def fl_sub_def Let_def)

theorem backtest_side_effect_counterexample:
  "Daily_Return ex2 = None \<and>
   Daily_Return (fst (backtest_strategy exact ex2)) = Some [NaN, Fin (1 / 9), Fin (- 6 / 100)] \<and>
   fst (backtest_strategy exact ex2) \<noteq> ex2"
proof -
  have a: "Daily_Return ex2 = None" by (simp add: ex2_def ex1_def new_frame_def)
  have b: "Daily_Return (fst (backtest_strategy exact ex2)) = Some [NaN, Fin (1 / 9), Fin (- 6 / 100)]"
    by (simp add: ex2_backtest)
  from a b have "fst (backtest_strategy exact ex2) \<noteq> ex2" by auto
  with a b show ?thesis by simp
qed

theorem backtest_frame_effect_witness:
  "Managed_Position ex2 = Some [0, 1, 0] \<and> snd (backtest_strategy exact ex2) = None \<and>
   Close (fst (backtest_strategy exact ex2)) = [90, 100, 94] \<and>
   Strategy_Return (fst (backtest_strategy exact ex2)) = Some [NaN, Fin 0, Fin (- 6 / 100)]"
proof -
  have h: "Managed_Position ex2 = Some [0, 1, 0]" by (simp add: ex2_def)
  have c: "Close ex2 = [90, 100, 94]" by (simp add: ex2_def ex1_def new_frame_def)
  from backtest_frame_effect[of exact ex2 "[0, 1, 0]"] h
  have "snd (backtest_strategy exact ex2) = None" "Close (fst (backtest_strategy exact ex2)) = Close ex2" by simp_all
  then show ?thesis using h c by (simp add: ex2_backtest)
qed

section \<open>The search loop\<close>

lemma cumprod_from_length: "length (cumprod_from A a xs) = length xs"
  by (induction xs arbitrary: a) simp_all

lemma cumulative_returns_length: "length (cumulative_returns A xs) = length xs"
  by (simp add: cumulative_returns_def cumprod_def cumprod_from_length)

lemma shift1_length: "length (shift1 xs) = length xs"
  by (simp add: shift1_def)

lemma daily_col_length: "length (daily_col A c) = length c"
  by (simp add: daily_col_def pct_change_def shift1_length)

lemma managed_col_length: "length (managed_col A c p) = length c"
  by (simp add: managed_col_def risk_run_length)

lemma strategy_col_length: "length mp = length c \<Longrightarrow> length (strategy_col A c mp) = length c"
  by (simp add: strategy_col_def daily_col_length shift1_length as_float_def)

lemma pipeline_frame_returns:
  "Cumulative_Strategy_Returns (pipeline_frame A c p)
     = Some (cumulative_returns A (strategy_col A c (managed_col A c p)))"
  by (simp add: pipeline_frame_def backtest_frame_def signal_frame_def new_frame_def)

lemma returns_empty: "cumulative_returns A (strategy_col A c (managed_col A c p)) = [] \<longleftrightarrow> c = []"
proof -
  have "length (cumulative_returns A (strategy_col A c (managed_col A c p))) = length c"
    by (simp add: cumulative_returns_length strategy_col_length managed_col_length)
  then show ?thesis by (metis length_0_conv)
qed

lemma search_step_ok:
  assumes "windows_ok (length (Close (table st))) (short_window p) (long_window p)"
    and "Close (table st) \<noteq> []"
  shows "search_step A p st =
        (st\<lparr>table := pipeline_frame A (Close (table st)) p,
            printed := printed st @ [(p, score A (Close (table st)) p)],
            best_return := (if fl_gt (score A (Close (table st)) p) (best_return st)
                            then score A (Close (table st)) p else best_return st),
            best_params := (if fl_gt (score A (Close (table st)) p) (best_return st)
                            then Some p else best_params st)\<rparr>, None)"
  using assms
  by (simp add: search_step_def run_pipeline_ok pipeline_frame_returns returns_empty
      score_def Let_def)

lemma search_step_fails:
  assumes "\<not> windows_ok (length (Close (table st))) (short_window p) (long_window p) \<or>
           Close (table st) = []"
  shows "snd (search_step A p st) \<noteq> None"
proof (cases "windows_ok (length (Close (table st))) (short_window p) (long_window p)")
  case True
  then have "Close (table st) = []" using assms by blast
  then show ?thesis using True
    by (simp add: search_step_def run_pipeline_ok pipeline_frame_returns returns_empty)
next
  case False
  obtain d1 r where s: "run_pipeline A (table st) p = (d1, r)"
    by (cases "run_pipeline A (table st) p")
  then have "r = Some (window_error (short_window p) (long_window p))"
    using run_pipeline_error[OF False, of A] by simp
  then show ?thesis using s by (simp add: search_step_def)
qed

lemma search_step_Close: "Close (table (fst (search_step A p st))) = Close (table st)"
proof -
  obtain d1 r where s: "run_pipeline A (table st) p = (d1, r)"
    by (cases "run_pipeline A (table st) p")
  then have "Close d1 = Close (table st)" using run_pipeline_Close[of A "table st" p] by simp
  then show ?thesis using s
    by (cases r) (simp_all add: search_step_def Let_def split: option.splits)
qed

lemma search_loop_Close: "Close (table (fst (search_loop A ps st))) = Close (table st)"
proof (induction ps arbitrary: st)
  case Nil
  then show ?case by simp
next
  case (Cons p ps)
  show ?case
  proof (cases "search_step A p st")
    case (Pair st1 r)
    then have "Close (table st1) = Close (table st)" using search_step_Close[of A p st] by simp
    then show ?thesis using Pair Cons.IH[of st1] by (cases r) simp_all
  qed
qed

lemma search_loop_done:
  assumes "search_loop A ps st = (st', None)"
  shows "printed st' = printed st @ scored A (Close (table st)) ps \<and>
         (best_params st', best_return st')
           = select_best (scored A (Close (table st)) ps) (best_params st, best_return st) \<and>
         (ps \<noteq> [] \<longrightarrow> Close (table st) \<noteq> []) \<and>
         (\<forall>p\<in>set ps. windows_ok (length (Close (table st))) (short_window p) (long_window p))"
  using assms
proof (induction ps arbitrary: st)
  case Nil
  then show ?case by (simp add: scored_def)
next
  case (Cons p ps)
  obtain st1 r where step: "search_step A p st = (st1, r)" by (cases "search_step A p st")
  with Cons.prems have r: "r = None" and loop: "search_loop A ps st1 = (st', None)"
    by (cases r; simp)+
  have ok: "windows_ok (length (Close (table st))) (short_window p) (long_window p)"
    "Close (table st) \<noteq> []"
    using step r search_step_fails[of st p A] by auto
  have st1: "st1 = st\<lparr>table := pipeline_frame A (Close (table st)) p,
            printed := printed st @ [(p, score A (Close (table st)) p)],
            best_return := (if fl_gt (score A (Close (table st)) p) (best_return st)
                            then score A (Close (table st)) p else best_return st),
            best_params := (if fl_gt (score A (Close (table st)) p) (best_return st)
                            then Some p else best_params st)\<rparr>"
    using step search_step_ok[OF ok, of A] by simp
  have c1: "Close (table st1) = Close (table st)" by (simp add: st1 pipeline_frame_Close)
  from Cons.IH[OF loop] show ?case
    unfolding c1 using ok by (simp add: st1 scored_def)
qed

lemma search_loop_ok:
  assumes "Close (table st) \<noteq> []"
    and "\<forall>p\<in>set ps. windows_ok (length (Close (table st))) (short_window p) (long_window p)"
  shows "snd (search_loop A ps st) = None"
  using assms
proof (induction ps arbitrary: st)
  case Nil
  then show ?case by simp
next
  case (Cons p ps)
  have w: "windows_ok (length (Close (table st))) (short_window p) (long_window p)"
    using Cons.prems(2) by simp
  obtain st1 where step: "search_step A p st = (st1, None)"
    using search_step_ok[OF w Cons.prems(1), of A] by simp
  then have "Close (table st1) = Close (table st)" using search_step_Close[of A p st] by simp
  then show ?case using Cons step by simp
qed

lemma select_best_first_max:
  assumes "br \<noteq> NaN" and "select_best xs (bp, br) = (bp', br')"
  shows "(bp' = bp \<and> br' = br \<and> (\<forall>x\<in>set xs. \<not> fl_gt (snd x) br)) \<or>
         (\<exists>pre p post. xs = pre @ (p, br') # post \<and> bp' = Some p \<and> fl_gt br' br \<and>
            (\<forall>x\<in>set pre. snd x = NaN \<or> fl_gt br' (snd x)) \<and>
            (\<forall>x\<in>set post. \<not> fl_gt (snd x) br'))"
  using assms
proof (induction xs arbitrary: bp br)
  case Nil
  then show ?case by simp
next
  case (Cons x xs)
  obtain p s where x: "x = (p, s)" by (cases x)
  show ?case
  proof (cases "fl_gt s br")
    case True
    then have s: "s \<noteq> NaN" using fl_gt_not_NaN by blast
    from Cons.prems True x have sel: "select_best xs (Some p, s) = (bp', br')" by simp
    from Cons.IH[OF s sel] show ?thesis
    proof (elim disjE exE conjE)
      assume h: "bp' = Some p" "br' = s" "\<forall>x\<in>set xs. \<not> fl_gt (snd x) s"
      have "x # xs = [] @ (p, br') # xs" using x h by simp
      moreover have "fl_gt br' br" using True h by simp
      moreover have "\<forall>x\<in>set xs. \<not> fl_gt (snd x) br'" using h by simp
      moreover have "\<forall>x\<in>set []. snd x = NaN \<or> fl_gt br' (snd x)" by simp
      ultimately show ?thesis using h(1) by blast
    next
      fix pre p' post
      assume h: "xs = pre @ (p', br') # post" "bp' = Some p'" "fl_gt br' s"
            "\<forall>x\<in>set pre. snd x = NaN \<or> fl_gt br' (snd x)"
            "\<forall>x\<in>set post. \<not> fl_gt (snd x) br'"
      have "x # xs = (x # pre) @ (p', br') # post" using h(1) by simp
      moreover have "fl_gt br' br" using h(3) True by (rule fl_gt_trans)
      moreover have "\<forall>y\<in>set (x # pre). snd y = NaN \<or> fl_gt br' (snd y)"
        using h(3,4) x by simp
      ultimately show ?thesis using h(2,5) by blast
    qed
  next
    case False
    from Cons.prems False x have sel: "select_best xs (bp, br) = (bp', br')" by simp
    from Cons.IH[OF Cons.prems(1) sel] show ?thesis
    proof (elim disjE exE conjE)
      assume h: "bp' = bp" "br' = br" "\<forall>x\<in>set xs. \<not> fl_gt (snd x) br"
      have "\<forall>y\<in>set (x # xs). \<not> fl_gt (snd y) br" using h(3) False x by simp
      then show ?thesis using h(1,2) by blast
    next
      fix pre p' post
      assume h: "xs = pre @ (p', br') # post" "bp' = Some p'" "fl_gt br' br"
            "\<forall>x\<in>set pre. snd x = NaN \<or> fl_gt br' (snd x)"
            "\<forall>x\<in>set post. \<not> fl_gt (snd x) br'"
      have "s = NaN \<or> fl_gt br' s" using fl_gt_above[OF False h(3)] by blast
      then have "\<forall>y\<in>set (x # pre). snd y = NaN \<or> fl_gt br' (snd y)"
        using h(4) x by simp
      moreover have "x # xs = (x # pre) @ (p', br') # post" using h(1) by simp
      ultimately show ?thesis using h(2,3,5) by blast
    qed
  qed
qed

section \<open>The grids and the choice of the best parameter set\<close>

lemma params_eta:
  "\<lparr>short_window = short_window p, long_window = long_window p,
     stop_loss = stop_loss p, take_profit = take_profit p\<rparr> = (p::params)"
  by simp

lemma nested_loops_set: "set (nested_loops sws lws sls tps) = product_set sws lws sls tps"
proof (rule set_eqI)
  fix p :: params
  have "p \<in> set (nested_loops sws lws sls tps) \<longleftrightarrow>
        (\<exists>s\<in>set sws. \<exists>l\<in>set lws. \<exists>x\<in>set sls. \<exists>t\<in>set tps.
           p = \<lparr>short_window = s, long_window = l, stop_loss = x, take_profit = t\<rparr>)"
    by (auto simp add: nested_loops_def)
  also have "\<dots> \<longleftrightarrow> p \<in> product_set sws lws sls tps"
    unfolding product_set_def
    by (cases p) auto
  finally show "p \<in> set (nested_loops sws lws sls tps) \<longleftrightarrow> p \<in> product_set sws lws sls tps" .
qed

lemma ParameterGrid_set:
  assumes "ParameterGrid sws lws sls tps = Inr grid"
  shows "set grid = product_set sws lws sls tps"
proof (rule set_eqI)
  fix p :: params
  have g: "grid = concat (map (\<lambda>l. concat (map (\<lambda>s. concat (map (\<lambda>x. map (\<lambda>t.
             \<lparr>short_window = s, long_window = l, stop_loss = x, take_profit = t\<rparr>)
             tps) sls)) sws)) lws)"
    using assms by (simp add: ParameterGrid_def split: if_splits)
  have "p \<in> set grid \<longleftrightarrow>
        (\<exists>s\<in>set sws. \<exists>l\<in>set lws. \<exists>x\<in>set sls. \<exists>t\<in>set tps.
           p = \<lparr>short_window = s, long_window = l, stop_loss = x, take_profit = t\<rparr>)"
    unfolding g by auto
  also have "\<dots> \<longleftrightarrow> p \<in> product_set sws lws sls tps"
    unfolding product_set_def
    by (cases p) auto
  finally show "p \<in> set grid \<longleftrightarrow> p \<in> product_set sws lws sls tps" .
qed

lemma main_grid_set:
  "set main_grid = product_set [10, 15, 20, 25, 30] [50, 60, 70, 80, 90, 100]
       [3 / 100, 5 / 100, 7 / 100] [5 / 100, 10 / 100, 15 / 100]"
  by (simp add: main_grid_def nested_loops_set)

lemma main_grid_windows:
  assumes "p \<in> set main_grid"
  shows "0 \<le> short_window p \<and> short_window p < long_window p \<and> 50 \<le> long_window p"
  using assms unfolding main_grid_set product_set_def by auto

lemma search_loop_choice:
  assumes "search_loop A ps (initial_state d) = (st, None)" and "best_params st = Some p"
  shows "\<exists>pre post. ps = pre @ p # post \<and> best_return st = score A (Close d) p \<and>
           (\<forall>q\<in>set pre. score A (Close d) q = NaN \<or> fl_gt (score A (Close d) p) (score A (Close d) q)) \<and>
           (\<forall>q\<in>set post. \<not> fl_gt (score A (Close d) q) (score A (Close d) p))"
proof -
  let ?c = "Close d"
  have sel: "select_best (scored A ?c ps) (None, NInf) = (best_params st, best_return st)"
    using search_loop_done[OF assms(1)] by (simp add: initial_state_def)
  have "NInf \<noteq> NaN" by simp
  from select_best_first_max[OF this sel] assms(2)
  obtain pre' q post' where h: "scored A ?c ps = pre' @ (q, best_return st) # post'"
      "best_params st = Some q"
      "\<forall>x\<in>set pre'. snd x = NaN \<or> fl_gt (best_return st) (snd x)"
      "\<forall>x\<in>set post'. \<not> fl_gt (snd x) (best_return st)"
    by auto
  have q: "q = p" using h(2) assms(2) by simp
  from h(1) obtain pre rest where a: "ps = pre @ rest" "pre' = scored A ?c pre"
      "(q, best_return st) # post' = scored A ?c rest"
    unfolding scored_def by (auto simp add: map_eq_append_conv)
  from a(3) obtain r post where b: "rest = r # post" "(q, best_return st) = (r, score A ?c r)"
      "post' = scored A ?c post"
    unfolding scored_def by (auto simp add: Cons_eq_map_conv)
  have r: "r = p" "best_return st = score A ?c p" using b(2) q by simp_all
  have "ps = pre @ p # post" using a(1) b(1) r by simp
  moreover have "\<forall>q\<in>set pre. score A ?c q = NaN \<or> fl_gt (score A ?c p) (score A ?c q)"
    using h(3) a(2) r(2) by (simp add: scored_def)
  moreover have "\<forall>q\<in>set post. \<not> fl_gt (score A ?c q) (score A ?c p)"
    using h(4) b(3) r(2) by (simp add: scored_def)
  ultimately show ?thesis using r(2) by blast
qed

lemma tune_hyperparameters_done:
  assumes "tune_hyperparameters A d sws lws sls tps = (st, None)"
  shows "\<exists>grid. ParameterGrid sws lws sls tps = Inr grid \<and>
           search_loop A grid (initial_state d) = (st, None)"
  using assms by (simp add: tune_hyperparameters_def split: sum.splits)

lemma hyperparameter_tuning_done:
  assumes "hyperparameter_tuning A d = (st, None)"
  shows "search_loop A main_grid (initial_state d) = (st, None) \<and> best_params st \<noteq> None"
proof -
  obtain st1 r where s: "search_loop A main_grid (initial_state d) = (st1, r)"
    by (cases "search_loop A main_grid (initial_state d)")
  then show ?thesis using assms
    by (cases r) (auto simp add: hyperparameter_tuning_def split: if_splits)
qed

section \<open>The strategy return looks at no later price\<close>

lemma shift1_nth: "t < length xs \<Longrightarrow> shift1 xs ! t = (if t = 0 then NaN else xs ! (t - 1))"
  by (cases t) (simp_all add: shift1_def)

lemma daily_col_nth:
  assumes "t < length c"
  shows "daily_col A c ! t =
     f_sub A (f_div A (Fin (c ! t)) (if t = 0 then NaN else Fin (c ! (t - 1)))) (Fin 1)"
  using assms by (simp add: daily_col_def pct_change_def shift1_length shift1_nth)

lemma strategy_col_nth:
  assumes "t < length c" and "length mp = length c"
  shows "strategy_col A c mp ! t =
     f_mul A (daily_col A c ! t) (if t = 0 then NaN else Fin (real_of_int (mp ! (t - 1))))"
  using assms
  by (simp add: strategy_col_def daily_col_length shift1_length shift1_nth as_float_def)

lemma managed_col_0: "0 < length c \<Longrightarrow> managed_col A c p ! 0 = 0"
  by (simp add: managed_col_def risk_run_untouched)

lemma managed_col_Suc:
  assumes "Suc k < length c"
  shows "managed_col A c p ! Suc k =
     (let target = (if signal_col A c (short_window p) (long_window p) ! Suc k = 1 then 1 else 0) in
      if managed_col A c p ! k = 1 then
        (if fl_lt (Fin (c ! Suc k)) (stop_level A (c ! k) (stop_loss p)) then 0
         else if fl_gt (Fin (c ! Suc k)) (profit_level A (c ! k) (take_profit p)) then 0
         else target)
      else target)"
  using risk_run_nth[of "Suc k" "length c" A "signal_col A c (short_window p) (long_window p)" c
      "stop_loss p" "take_profit p"] assms
  by (simp add: managed_col_def)

lemma managed_col_flag: "t < length c \<Longrightarrow> managed_col A c p ! t = 0 \<or> managed_col A c p ! t = 1"
proof (cases t)
  case 0
  assume "t < length c"
  then show ?thesis using 0 by (simp add: managed_col_0)
next
  case (Suc k)
  assume "t < length c"
  then show ?thesis using Suc managed_col_Suc[of k c A p] by (simp add: Let_def)
qed

lemma take_prefix_le:
  assumes "take n xs = take n ys" and "m \<le> n"
  shows "take m xs = take m ys"
proof -
  have "take m xs = take m (take n xs)" using assms(2) by (simp add: min_def)
  also have "\<dots> = take m (take n ys)" using assms(1) by simp
  also have "\<dots> = take m ys" using assms(2) by (simp add: min_def)
  finally show ?thesis .
qed

lemma nth_prefix:
  assumes "take n xs = take n ys" and "j < n"
  shows "xs ! j = ys ! j"
proof -
  have "xs ! j = take n xs ! j" using assms(2) by simp
  also have "\<dots> = take n ys ! j" using assms(1) by simp
  also have "\<dots> = ys ! j" using assms(2) by simp
  finally show ?thesis .
qed

lemma sma_prefix:
  assumes "take (Suc k) c1 = take (Suc k) c2"
  shows "sma A c1 w k = sma A c2 w k"
  unfolding sma_def assms ..

lemma rolling_mean_prefix:
  assumes "take (Suc k) c1 = take (Suc k) c2" and "k < length c1" and "k < length c2"
  shows "rolling_mean A w c1 ! k = rolling_mean A w c2 ! k"
  using assms sma_prefix[of k c1 c2 A w] by (simp add: rolling_mean_nth)

lemma signal_col_prefix:
  assumes "take (Suc k) c1 = take (Suc k) c2" and "k < length c1" and "k < length c2"
  shows "signal_col A c1 sw lw ! k = signal_col A c2 sw lw ! k"
  using assms rolling_mean_prefix[OF assms, of A "nat sw"] rolling_mean_prefix[OF assms, of A "nat lw"]
  by (simp add: signal_col_nth)

lemma managed_col_prefix:
  assumes "take (Suc t) c1 = take (Suc t) c2" and "t < length c1" and "t < length c2"
    and "k \<le> t"
  shows "managed_col A c1 p ! k = managed_col A c2 p ! k"
  using assms(4)
proof (induction k)
  case 0
  have "0 < length c1" "0 < length c2" using assms(2,3) by auto
  then show ?case by (simp add: managed_col_0)
next
  case (Suc k)
  then have k: "Suc k < length c1" "Suc k < length c2" "k \<le> t" using assms(2,3) by simp_all
  have pre: "take (Suc (Suc k)) c1 = take (Suc (Suc k)) c2"
    using take_prefix_le[OF assms(1), of "Suc (Suc k)"] Suc.prems by simp
  have s: "signal_col A c1 (short_window p) (long_window p) ! Suc k
         = signal_col A c2 (short_window p) (long_window p) ! Suc k"
    using pre k(1) k(2) by (rule signal_col_prefix)
  have a: "c1 ! Suc k = c2 ! Suc k" using nth_prefix[OF pre, of "Suc k"] by simp
  have b: "c1 ! k = c2 ! k" using nth_prefix[OF pre, of k] by simp
  show ?case
    unfolding managed_col_Suc[OF k(1)] managed_col_Suc[OF k(2)] s a b Suc.IH[OF k(3)] ..
qed

lemma daily_col_prefix:
  assumes "take (Suc t) c1 = take (Suc t) c2" and "t < length c1" and "t < length c2"
  shows "daily_col A c1 ! t = daily_col A c2 ! t"
proof -
  have a: "c1 ! t = c2 ! t" using nth_prefix[OF assms(1), of t] by simp
  have b: "c1 ! (t - 1) = c2 ! (t - 1)" using nth_prefix[OF assms(1), of "t - 1"] by simp
  show ?thesis unfolding daily_col_nth[OF assms(2)] daily_col_nth[OF assms(3)] a b ..
qed

lemma strategy_col_prefix:
  assumes "take (Suc t) c1 = take (Suc t) c2" and "t < length c1" and "t < length c2"
  shows "strategy_col A c1 (managed_col A c1 p) ! t = strategy_col A c2 (managed_col A c2 p) ! t"
proof -
  have m: "managed_col A c1 p ! (t - 1) = managed_col A c2 p ! (t - 1)"
    using managed_col_prefix[OF assms, of "t - 1" A p] by simp
  show ?thesis
    unfolding strategy_col_nth[OF assms(2) managed_col_length]
      strategy_col_nth[OF assms(3) managed_col_length] daily_col_prefix[OF assms] m ..
qed

lemma pipeline_frame_cols:
  "Daily_Return (pipeline_frame A c p) = Some (daily_col A c) \<and>
   Strategy_Return (pipeline_frame A c p) = Some (strategy_col A c (managed_col A c p)) \<and>
   Managed_Position (pipeline_frame A c p) = Some (managed_col A c p)"
  by (simp add: pipeline_frame_def backtest_frame_def signal_frame_def new_frame_def)

text \<open>
  Claim C2.  After a run of signal generation, risk management and backtest, the strategy
  return of every row \<open>t\<close> is the product, in doubles, of the period price return of row
  \<open>t\<close> and the managed position of row \<open>t - 1\<close>, which is 1 or 0; in the first row the
  shifted position is undefined, and both returns are NaN.  So it is the period return
  multiplied by 1 when the managed position of row \<open>t - 1\<close> is 1, and by 0 otherwise.  For
  two price series that agree on all rows up to and including \<open>t\<close>, runs with the same
  parameters give the same strategy return in row \<open>t\<close>.
\<close>

theorem strategy_return_no_lookahead:
  "(run_pipeline A d p = (d', None) \<and> t < length (Close d) \<longrightarrow>
      (\<exists>dr sr mp.
         Daily_Return d' = Some dr \<and> Strategy_Return d' = Some sr \<and>
         Managed_Position d' = Some mp \<and>
         sr ! t = f_mul A (dr ! t)
                    (if t = 0 then NaN else Fin (if mp ! (t - 1) = 1 then 1 else 0)) \<and>
         (nan_propagates A \<longrightarrow>
            sr ! t = f_mul A (dr ! t) (Fin (if 1 \<le> t \<and> mp ! (t - 1) = 1 then 1 else 0))))) \<and>
   (run_pipeline A d1 p = (d1', None) \<and> run_pipeline A d2 p = (d2', None) \<and>
    t < length (Close d1) \<and> t < length (Close d2) \<and>
    take (Suc t) (Close d1) = take (Suc t) (Close d2) \<longrightarrow>
      (\<exists>sr1 sr2.
         Strategy_Return d1' = Some sr1 \<and> Strategy_Return d2' = Some sr2 \<and> sr1 ! t = sr2 ! t))"
proof (intro conjI impI)
  assume a: "run_pipeline A d p = (d', None) \<and> t < length (Close d)"
  let ?c = "Close d"
  let ?mp = "managed_col A ?c p"
  have d': "d' = pipeline_frame A ?c p" using a run_pipeline_done by blast
  have t: "t < length ?c" using a by simp
  have s1: "strategy_col A ?c ?mp ! t =
          f_mul A (daily_col A ?c ! t) (if t = 0 then NaN else Fin (if ?mp ! (t - 1) = 1 then 1 else 0))"
  proof (cases t)
    case 0
    have t0: "0 < length ?c" using t by auto
    have "strategy_col A ?c ?mp ! 0 = f_mul A (daily_col A ?c ! 0) NaN"
      by (simp add: strategy_col_nth[OF t0 managed_col_length])
    then show ?thesis using 0 by simp
  next
    case (Suc k)
    then have k: "k < length ?c" and sk: "Suc k < length ?c" using t by simp_all
    have "strategy_col A ?c ?mp ! Suc k =
            f_mul A (daily_col A ?c ! Suc k) (Fin (real_of_int (?mp ! k)))"
      by (simp add: strategy_col_nth[OF sk managed_col_length])
    then show ?thesis using managed_col_flag[OF k, of A p] Suc by auto
  qed
  have s2: "nan_propagates A \<longrightarrow> strategy_col A ?c ?mp ! t =
          f_mul A (daily_col A ?c ! t) (Fin (if 1 \<le> t \<and> ?mp ! (t - 1) = 1 then 1 else 0))"
  proof
    assume n: "nan_propagates A"
    show "strategy_col A ?c ?mp ! t =
          f_mul A (daily_col A ?c ! t) (Fin (if 1 \<le> t \<and> ?mp ! (t - 1) = 1 then 1 else 0))"
    proof (cases t)
      case 0
      have t0: "0 < length ?c" using t by auto
      have "daily_col A ?c ! 0 = NaN"
        using n by (simp add: daily_col_nth[OF t0] nan_propagates_def)
      then show ?thesis using s1 0 n by (simp add: nan_propagates_def)
    next
      case (Suc k)
      then show ?thesis using s1 by simp
    qed
  qed
  show "\<exists>dr sr mp.
         Daily_Return d' = Some dr \<and> Strategy_Return d' = Some sr \<and>
         Managed_Position d' = Some mp \<and>
         sr ! t = f_mul A (dr ! t)
                    (if t = 0 then NaN else Fin (if mp ! (t - 1) = 1 then 1 else 0)) \<and>
         (nan_propagates A \<longrightarrow>
            sr ! t = f_mul A (dr ! t) (Fin (if 1 \<le> t \<and> mp ! (t - 1) = 1 then 1 else 0)))"
    unfolding d' using pipeline_frame_cols[of A ?c p] s1 s2 by simp
next
  assume a: "run_pipeline A d1 p = (d1', None) \<and> run_pipeline A d2 p = (d2', None) \<and>
    t < length (Close d1) \<and> t < length (Close d2) \<and>
    take (Suc t) (Close d1) = take (Suc t) (Close d2)"
  have d1: "d1' = pipeline_frame A (Close d1) p" using a run_pipeline_done by blast
  have d2: "d2' = pipeline_frame A (Close d2) p" using a run_pipeline_done by blast
  have "strategy_col A (Close d1) (managed_col A (Close d1) p) ! t
      = strategy_col A (Close d2) (managed_col A (Close d2) p) ! t"
    using a by (intro strategy_col_prefix) simp_all
  then show "\<exists>sr1 sr2.
         Strategy_Return d1' = Some sr1 \<and> Strategy_Return d2' = Some sr2 \<and> sr1 ! t = sr2 ! t"
    unfolding d1 d2 using pipeline_frame_cols by simp
qed

text \<open>
  The run of the specification's example: five closes, windows 2 and 3, stop loss 0.05,
  take profit 0.10.
\<close>

lemma pipeline_ex_2_3:
  "pipeline_frame exact ex_prices (ex_params 2 3) =
     \<lparr>Close = [100, 105, 100, 95, 90],
      SMA_Short = Some [NaN, Fin (205 / 2), Fin (205 / 2), Fin (195 / 2), Fin (185 / 2)],
      SMA_Long = Some [NaN, NaN, Fin (305 / 3), Fin 100, Fin 95],
      Signal = Some [0, 0, 1, 0, 0],
      Position = Some [Fin 0, Fin 0, Fin 1, Fin (- 1), Fin 0],
      Managed_Position = Some [0, 0, 1, 0, 0],
      Daily_Return = Some [NaN, Fin (1 / 20), Fin (- 1 / 21), Fin (- 1 / 20), Fin (- 1 / 19)],
      Strategy_Return = Some [NaN, Fin 0, Fin 0, Fin (- 1 / 20), Fin 0],
      Cumulative_Market_Returns =
        Some [NaN, Fin (1 / 20), Fin 0, Fin (- 1 / 20), Fin (- 1 / 10)],
      Cumulative_Strategy_Returns =
        Some [NaN, Fin 0, Fin 0, Fin (- 1 / 20), Fin (- 1 / 20)]\<rparr>"
  by (simp add: pipeline_frame_def backtest_frame_def signal_frame_def new_frame_def
      ex_prices_def ex_params_def managed_col_def signal_col_def
      rolling_mean_def np_where_gt_def risk_run_def risk_step_def stop_level_def
      profit_level_def fl_lt_def strategy_col_def daily_col_def
      pct_change_def shift1_def as_float_def cumulative_returns_def cumprod_def fl_sub_def
      fillna_def series_diff_def Let_def)

theorem strategy_return_no_lookahead_witness:
  "run_pipeline exact (new_frame ex_prices) (ex_params 2 3)
     = (pipeline_frame exact ex_prices (ex_params 2 3), None) \<and>
   run_pipeline exact (new_frame ex_future) (ex_params 2 3)
     = (pipeline_frame exact ex_future (ex_params 2 3), None) \<and>
   3 < length (Close (new_frame ex_prices)) \<and> 3 < length (Close (new_frame ex_future)) \<and>
   take (Suc 3) (Close (new_frame ex_prices)) = take (Suc 3) (Close (new_frame ex_future)) \<and>
   Close (new_frame ex_prices) \<noteq> Close (new_frame ex_future) \<and> nan_propagates exact \<and>
   Daily_Return (pipeline_frame exact ex_prices (ex_params 2 3))
     = Some [NaN, Fin (1 / 20), Fin (- 1 / 21), Fin (- 1 / 20), Fin (- 1 / 19)] \<and>
   Managed_Position (pipeline_frame exact ex_prices (ex_params 2 3)) = Some [0, 0, 1, 0, 0] \<and>
   Strategy_Return (pipeline_frame exact ex_prices (ex_params 2 3))
     = Some [NaN, Fin 0, Fin 0, Fin (- 1 / 20), Fin 0] \<and>
   strategy_col exact ex_future (managed_col exact ex_future (ex_params 2 3)) ! 3 = Fin (- 1 / 20)"
proof -
  let ?p = "ex_params 2 3"
  let ?d1 = "new_frame ex_prices"
  let ?d2 = "new_frame ex_future"
  have c1: "Close ?d1 = ex_prices" and c2: "Close ?d2 = ex_future"
    by (simp_all add: new_frame_def)
  have w1: "windows_ok (length (Close ?d1)) (short_window ?p) (long_window ?p)"
    by (simp add: windows_ok_def ex_params_def new_frame_def ex_prices_def)
  have w2: "windows_ok (length (Close ?d2)) (short_window ?p) (long_window ?p)"
    by (simp add: windows_ok_def ex_params_def new_frame_def ex_future_def)
  have r1: "run_pipeline exact ?d1 ?p = (pipeline_frame exact ex_prices ?p, None)"
    using run_pipeline_ok[OF w1, of exact] by (simp only: c1)
  have r2: "run_pipeline exact ?d2 ?p = (pipeline_frame exact ex_future ?p, None)"
    using run_pipeline_ok[OF w2, of exact] by (simp only: c2)
  have l1: "3 < length (Close ?d1)" unfolding c1 by (simp add: ex_prices_def)
  have l2: "3 < length (Close ?d2)" unfolding c2 by (simp add: ex_future_def)
  have tk: "take (Suc 3) (Close ?d1) = take (Suc 3) (Close ?d2)"
    unfolding c1 c2 by (simp add: ex_prices_def ex_future_def)
  have ne: "Close ?d1 \<noteq> Close ?d2" unfolding c1 c2 by (simp add: ex_prices_def ex_future_def)
  from strategy_return_no_lookahead[where ?d1.0 = ?d1 and ?d2.0 = ?d2 and p = ?p and t = 3
      and A = exact
      and ?d1' = "pipeline_frame exact ex_prices ?p" and ?d2' = "pipeline_frame exact ex_future ?p"]
    r1 r2 l1 l2 tk
  obtain sr1 sr2 where sr: "Strategy_Return (pipeline_frame exact ex_prices ?p) = Some sr1"
      "Strategy_Return (pipeline_frame exact ex_future ?p) = Some sr2" "sr1 ! 3 = sr2 ! 3"
    by blast
  have s1: "sr1 = [NaN, Fin 0, Fin 0, Fin (- 1 / 20), Fin 0]"
    using sr(1) by (simp add: pipeline_ex_2_3)
  have s2: "sr2 = strategy_col exact ex_future (managed_col exact ex_future ?p)"
    using sr(2) pipeline_frame_cols[of exact ex_future ?p] by simp
  have f: "strategy_col exact ex_future (managed_col exact ex_future ?p) ! 3 = Fin (- 1 / 20)"
    using sr(3) unfolding s1 s2 by simp
  show ?thesis using r1 r2 l1 l2 tk ne f nan_propagates_exact by (simp add: pipeline_ex_2_3)
qed

section \<open>A constant price\<close>

lemma flat_returns_length: "length (flat_returns n) = n"
  by (simp add: flat_returns_def)

lemma flat_returns_nth: "t < n \<Longrightarrow> flat_returns n ! t = (if t = 0 then NaN else Fin 0)"
  by (cases t) (simp_all add: flat_returns_def)

lemma daily_col_constant:
  assumes "nan_propagates A" and "exact_on_zero_one A" and "f_div A (Fin k) (Fin k) = Fin 1"
  shows "daily_col A (replicate n k) = flat_returns n"
proof (rule nth_equalityI)
  show "length (daily_col A (replicate n k)) = length (flat_returns n)"
    by (simp add: daily_col_length flat_returns_length)
next
  fix t assume "t < length (daily_col A (replicate n k))"
  then have t: "t < n" by (simp add: daily_col_length)
  then have "t < length (replicate n k)" by simp
  from daily_col_nth[OF this, of A] show "daily_col A (replicate n k) ! t = flat_returns n ! t"
    using t assms by (simp add: flat_returns_nth nan_propagates_def exact_on_zero_one_def)
qed

lemma strategy_col_constant:
  assumes "nan_propagates A" and "exact_on_zero_one A" and "f_div A (Fin k) (Fin k) = Fin 1"
    and "length mp = n" and "\<forall>j<n. mp ! j = 0 \<or> mp ! j = 1"
  shows "strategy_col A (replicate n k) mp = flat_returns n"
proof (rule nth_equalityI)
  show "length (strategy_col A (replicate n k) mp) = length (flat_returns n)"
    using assms(4) by (simp add: strategy_col_length flat_returns_length)
next
  fix t assume "t < length (strategy_col A (replicate n k) mp)"
  then have t: "t < n" using assms(4) by (simp add: strategy_col_length)
  then have tl: "t < length (replicate n k)" by simp
  have ml: "length mp = length (replicate n k)" using assms(4) by simp
  show "strategy_col A (replicate n k) mp ! t = flat_returns n ! t"
  proof (cases t)
    case 0
    then show ?thesis using strategy_col_nth[OF tl ml, of A] t assms(1)
      by (simp add: flat_returns_nth nan_propagates_def)
  next
    case (Suc j)
    then have "mp ! j = 0 \<or> mp ! j = 1" using assms(5) t by simp
    then show ?thesis using strategy_col_nth[OF tl ml, of A] t Suc assms(2)
      by (auto simp add: flat_returns_nth daily_col_constant[OF assms(1,2,3)]
          exact_on_zero_one_def)
  qed
qed

lemma cumprod_from_ones:
  assumes "exact_on_zero_one A"
  shows "cumprod_from A (Fin 1) (replicate m (Fin 1)) = replicate m (Fin 1)"
  using assms by (induction m) (simp_all add: exact_on_zero_one_def)

lemma cumulative_returns_flat:
  assumes "nan_propagates A" and "exact_on_zero_one A"
  shows "cumulative_returns A (flat_returns n) = flat_returns n"
  using assms cumprod_from_ones[OF assms(2)]
  by (simp add: cumulative_returns_def cumprod_def flat_returns_def nan_propagates_def
      exact_on_zero_one_def)

lemma dropna_flat: "dropna (flat_returns n) = replicate (n - 1) (Fin 0)"
  by (simp add: dropna_def flat_returns_def)

lemma mean_zeros:
  assumes "exact_on_zero_one A" and "1 \<le> m"
  shows "f_div A (f_sum A (replicate m (Fin 0))) (Fin (real m)) = Fin 0"
  using assms by (simp add: exact_on_zero_one_def)

lemma series_mean_zeros:
  assumes "exact_on_zero_one A"
  shows "series_mean A (NaN # replicate m (Fin 0)) = (if m = 0 then NaN else Fin 0)"
  using mean_zeros[OF assms, of m] by (simp add: series_mean_def dropna_def Let_def)

lemma series_std_zeros:
  assumes "exact_on_zero_one A"
  shows "series_std A (NaN # replicate m (Fin 0)) = (if m \<le> 1 then NaN else Fin 0)"
proof (cases "m \<le> 1")
  case True
  then show ?thesis by (simp add: series_std_def dropna_def Let_def)
next
  case False
  have m: "1 \<le> m" and m1: "1 \<le> m - 1" using False by simp_all
  have s0: "f_sub A (Fin 0) (Fin 0) = Fin 0" "f_mul A (Fin 0) (Fin 0) = Fin 0"
    "f_sqrt A (Fin 0) = Fin 0" "f_sum A (replicate m (Fin 0)) = Fin 0"
    using assms by (simp_all add: exact_on_zero_one_def)
  have dv: "f_div A (Fin 0) (Fin (real (m - 1))) = Fin 0"
    using assms m1 unfolding exact_on_zero_one_def by blast
  have mz: "f_div A (Fin 0) (Fin (real m)) = Fin 0"
    using assms m unfolding exact_on_zero_one_def by blast
  have sq: "map (\<lambda>x. f_mul A (f_sub A (Fin 0) x) (f_sub A (Fin 0) x)) (replicate m (Fin 0))
          = replicate m (Fin 0)"
    by (simp add: s0)
  have d: "dropna (NaN # replicate m (Fin 0)) = replicate m (Fin 0)"
    by (simp add: dropna_def)
  have l: "length (replicate m (Fin 0) :: fl list) = m" by simp
  have "series_std A (NaN # replicate m (Fin 0))
          = f_sqrt A (f_div A (f_sum A (map (\<lambda>x. f_mul A
               (f_sub A (f_div A (f_sum A (replicate m (Fin 0))) (Fin (real m))) x)
               (f_sub A (f_div A (f_sum A (replicate m (Fin 0))) (Fin (real m))) x))
               (replicate m (Fin 0)))) (Fin (real (m - 1))))"
    unfolding series_std_def Let_def d l using False by (simp only: if_False)
  also have "\<dots> = Fin 0"
    unfolding mean_zeros[OF assms m] sq
    by (simp only: s0(4) mz sq s0 dv)
  finally show ?thesis using False by simp
qed

lemma series_mean_flat:
  assumes "exact_on_zero_one A"
  shows "series_mean A (flat_returns n) = (if n \<le> 1 then NaN else Fin 0)"
proof (cases "n = 0")
  case True
  then show ?thesis by (simp add: flat_returns_def series_mean_def dropna_def)
next
  case False
  then have "flat_returns n = NaN # replicate (n - 1) (Fin 0)" by (simp add: flat_returns_def)
  then show ?thesis using series_mean_zeros[OF assms, of "n - 1"] by auto
qed

lemma series_std_flat:
  assumes "exact_on_zero_one A"
  shows "series_std A (flat_returns n) = (if n \<le> 2 then NaN else Fin 0)"
proof (cases "n = 0")
  case True
  then show ?thesis by (simp add: flat_returns_def series_std_def dropna_def)
next
  case False
  then have "flat_returns n = NaN # replicate (n - 1) (Fin 0)" by (simp add: flat_returns_def)
  then show ?thesis using series_std_zeros[OF assms, of "n - 1"] by auto
qed

lemma sharpe_flat:
  assumes "nan_propagates A" and "exact_on_zero_one A"
    and "Strategy_Return data = Some (flat_returns n)"
  shows "sharpe_ratio A data = Inr NaN"
  using assms
  by (simp add: sharpe_ratio_def series_mean_flat series_std_flat nan_propagates_def
      exact_on_zero_one_def)

lemma managed_col_flags: "\<forall>j<length c. managed_col A c p ! j = 0 \<or> managed_col A c p ! j = 1"
  using managed_col_flag by blast

lemma pipeline_frame_constant:
  assumes "nan_propagates A" and "exact_on_zero_one A" and "f_div A (Fin k) (Fin k) = Fin 1"
  shows "Cumulative_Market_Returns (pipeline_frame A (replicate n k) p) = Some (flat_returns n) \<and>
         Cumulative_Strategy_Returns (pipeline_frame A (replicate n k) p) = Some (flat_returns n) \<and>
         Strategy_Return (pipeline_frame A (replicate n k) p) = Some (flat_returns n)"
proof -
  have s: "strategy_col A (replicate n k) (managed_col A (replicate n k) p) = flat_returns n"
    using assms managed_col_flags[of "replicate n k" A p]
    by (intro strategy_col_constant) (simp_all add: managed_col_length)
  show ?thesis
    using s
    by (simp add: pipeline_frame_def backtest_frame_def signal_frame_def new_frame_def
      daily_col_constant[OF assms] cumulative_returns_flat[OF assms(1,2)])
qed

lemma score_constant:
  assumes "nan_propagates A" and "exact_on_zero_one A" and "f_div A (Fin k) (Fin k) = Fin 1"
  shows "score A (replicate n k) p = last (flat_returns n)"
proof -
  have s: "strategy_col A (replicate n k) (managed_col A (replicate n k) p) = flat_returns n"
    using assms managed_col_flags[of "replicate n k" A p]
    by (intro strategy_col_constant) (simp_all add: managed_col_length)
  show ?thesis by (simp add: score_def s cumulative_returns_flat[OF assms(1,2)])
qed

lemma score_constant_exact:
  assumes "k \<noteq> 0" and "2 \<le> n"
  shows "score exact (replicate n k) p = Fin 0"
proof -
  have "f_div exact (Fin k) (Fin k) = Fin 1" using assms(1) by simp
  from score_constant[OF nan_propagates_exact exact_on_zero_one_exact this, of n p]
  show ?thesis using assms(2) by (auto simp add: flat_returns_def)
qed

text \<open>
  Claim C9, amended.  On a series whose closes are all the same non-zero constant, a run
  that raises nothing gives cumulative market and strategy returns of 0 in every row after
  the first, where they are undefined (NaN).  When the series has at least two
  observations the terminal cumulative returns, and so the score of the run, are 0; with a
  single observation they are NaN.  The Sharpe computation gives NaN and raises nothing:
  the mean and the standard deviation of the strategy returns are 0 or undefined, and the
  division of numpy floats returns NaN.  The arithmetic is any that propagates NaN, is
  exact on 0 and 1 and divides the close by itself to 1, as that of doubles does.
\<close>

theorem constant_price_returns:
  assumes "Close d = replicate n k" and "k \<noteq> 0" and "run_pipeline A d p = (d', None)"
    and "nan_propagates A" and "exact_on_zero_one A" and "f_div A (Fin k) (Fin k) = Fin 1"
  shows "\<exists>cm cs.
           Cumulative_Market_Returns d' = Some cm \<and> Cumulative_Strategy_Returns d' = Some cs \<and>
           length cm = n \<and> length cs = n \<and>
           (\<forall>t. 1 \<le> t \<and> t < n \<longrightarrow> cm ! t = Fin 0 \<and> cs ! t = Fin 0) \<and>
           (2 \<le> n \<longrightarrow> last cm = Fin 0 \<and> last cs = Fin 0 \<and> score A (Close d) p = Fin 0) \<and>
           (n = 1 \<longrightarrow> last cm = NaN \<and> last cs = NaN) \<and>
           sharpe_ratio A d' = Inr NaN"
proof -
  have d': "d' = pipeline_frame A (replicate n k) p"
    using run_pipeline_done[OF assms(3)] assms(1) by simp
  note cols = pipeline_frame_constant[OF assms(4,5,6), of n p]
  have a: "\<forall>t. 1 \<le> t \<and> t < n \<longrightarrow> flat_returns n ! t = Fin 0 \<and> flat_returns n ! t = Fin 0"
    by (simp add: flat_returns_nth)
  have l2: "2 \<le> n \<longrightarrow> last (flat_returns n) = Fin 0"
    by (auto simp add: flat_returns_def)
  have sc: "score A (Close d) p = last (flat_returns n)"
    unfolding assms(1) using assms(4,5,6) by (rule score_constant)
  have l1: "n = 1 \<longrightarrow> last (flat_returns n) = NaN" by (simp add: flat_returns_def)
  have sh: "sharpe_ratio A d' = Inr NaN"
    unfolding d' using assms(4,5) cols by (intro sharpe_flat) simp_all
  show ?thesis unfolding d' using cols a l2 l1 sc sh[unfolded d'] flat_returns_length[of n]
    by auto
qed

lemma single_observation_run:
  "run_pipeline exact (new_frame [5]) (ex_params 1 3)
     = (pipeline_frame exact (replicate 1 5) (ex_params 1 3), None)"
proof -
  have "windows_ok (length (Close (new_frame [5]))) (short_window (ex_params 1 3))
          (long_window (ex_params 1 3))"
    by (simp add: windows_ok_def ex_params_def new_frame_def)
  from run_pipeline_ok[OF this, of exact] show ?thesis by (simp add: new_frame_def)
qed

theorem constant_price_counterexample:
  "snd (run_pipeline exact (new_frame [5]) (ex_params 1 3)) = None \<and>
   Cumulative_Market_Returns (fst (run_pipeline exact (new_frame [5]) (ex_params 1 3)))
     = Some [NaN] \<and>
   Cumulative_Strategy_Returns (fst (run_pipeline exact (new_frame [5]) (ex_params 1 3)))
     = Some [NaN] \<and>
   score exact (Close (new_frame [5])) (ex_params 1 3) = NaN \<and>
   last [NaN] \<noteq> Fin 0"
proof -
  have k: "f_div exact (Fin 5) (Fin 5) = Fin 1" by simp
  have "score exact (replicate 1 5) (ex_params 1 3) = last (flat_returns 1)"
    using nan_propagates_exact exact_on_zero_one_exact k by (rule score_constant)
  then have "score exact (Close (new_frame [5])) (ex_params 1 3) = NaN"
    by (simp add: new_frame_def flat_returns_def)
  then show ?thesis
    using pipeline_frame_constant[OF nan_propagates_exact exact_on_zero_one_exact k, of 1 "ex_params 1 3"]
    by (simp add: single_observation_run flat_returns_def)
qed

theorem constant_price_returns_witness:
  "Close (new_frame [7, 7, 7, 7]) = replicate 4 7 \<and> (7::real) \<noteq> 0 \<and>
   nan_propagates exact \<and> exact_on_zero_one exact \<and> f_div exact (Fin 7) (Fin 7) = Fin 1 \<and>
   run_pipeline exact (new_frame [7, 7, 7, 7]) (ex_params 2 3)
     = (pipeline_frame exact [7, 7, 7, 7] (ex_params 2 3), None) \<and>
   Cumulative_Market_Returns (pipeline_frame exact [7, 7, 7, 7] (ex_params 2 3))
     = Some [NaN, Fin 0, Fin 0, Fin 0] \<and>
   Cumulative_Strategy_Returns (pipeline_frame exact [7, 7, 7, 7] (ex_params 2 3))
     = Some [NaN, Fin 0, Fin 0, Fin 0] \<and>
   score exact [7, 7, 7, 7] (ex_params 2 3) = Fin 0 \<and>
   sharpe_ratio exact (pipeline_frame exact [7, 7, 7, 7] (ex_params 2 3)) = Inr NaN"
proof -
  let ?d = "new_frame [7, 7, 7, 7]"
  let ?p = "ex_params 2 3"
  have e: "[7, 7, 7, 7] = replicate 4 (7::real)" by (simp add: numeral_eq_Suc)
  have h1: "Close ?d = replicate 4 7" by (simp add: new_frame_def numeral_eq_Suc)
  have h2: "(7::real) \<noteq> 0" by simp
  have k: "f_div exact (Fin 7) (Fin 7) = Fin 1" by simp
  have c: "Close ?d = [7, 7, 7, 7]" by (simp add: new_frame_def)
  have w: "windows_ok (length (Close ?d)) (short_window ?p) (long_window ?p)"
    by (simp add: windows_ok_def ex_params_def new_frame_def)
  have h3: "run_pipeline exact ?d ?p = (pipeline_frame exact [7, 7, 7, 7] ?p, None)"
    using run_pipeline_ok[OF w, of exact] by (simp only: c)
  from constant_price_returns[OF h1 h2 h3 nan_propagates_exact exact_on_zero_one_exact k] have
    r: "score exact (Close ?d) ?p = Fin 0"
       "sharpe_ratio exact (pipeline_frame exact [7, 7, 7, 7] ?p) = Inr NaN"
    by auto
  have cols: "Cumulative_Market_Returns (pipeline_frame exact [7, 7, 7, 7] ?p) = Some [NaN, Fin 0, Fin 0, Fin 0]"
    "Cumulative_Strategy_Returns (pipeline_frame exact [7, 7, 7, 7] ?p) = Some [NaN, Fin 0, Fin 0, Fin 0]"
    using pipeline_frame_constant[OF nan_propagates_exact exact_on_zero_one_exact k, of 4 ?p]
    unfolding e[symmetric]
    by (simp_all add: flat_returns_def numeral_eq_Suc)
  show ?thesis using h1 h2 h3 r cols k nan_propagates_exact exact_on_zero_one_exact
    unfolding c by simp
qed

section \<open>What the grid search scores\<close>

lemma score_ex_3_2: "score exact ex_prices (ex_params 3 2) = Fin (- 1 / 19)"
  by (simp add: score_def ex_prices_def ex_params_def managed_col_def signal_col_def
      rolling_mean_def np_where_gt_def risk_run_def risk_step_def strategy_col_def daily_col_def
      pct_change_def shift1_def as_float_def cumulative_returns_def cumprod_def fl_sub_def fl_lt_def stop_level_def profit_level_def Let_def)

lemma score_ex_2_3: "score exact ex_prices (ex_params 2 3) = Fin (- 1 / 20)"
  by (simp add: score_def ex_prices_def ex_params_def managed_col_def signal_col_def
      rolling_mean_def np_where_gt_def risk_run_def risk_step_def strategy_col_def daily_col_def
      pct_change_def shift1_def as_float_def cumulative_returns_def cumprod_def fl_sub_def fl_lt_def stop_level_def profit_level_def Let_def)

lemma tune_single:
  assumes "windows_ok (length c) s l" and "c \<noteq> []"
  shows "tune_hyperparameters A (new_frame c) [s] [l] [5 / 100] [1 / 10] =
     (\<lparr>table = pipeline_frame A c (ex_params s l),
       best_params = (if fl_gt (score A c (ex_params s l)) NInf then Some (ex_params s l) else None),
       best_return = (if fl_gt (score A c (ex_params s l)) NInf then score A c (ex_params s l) else NInf),
       printed = [(ex_params s l, score A c (ex_params s l))]\<rparr>, None)"
  using assms
  by (simp add: tune_hyperparameters_def ParameterGrid_def search_step_ok initial_state_def
      ex_params_def new_frame_def)

lemma select_best_const:
  assumes "\<forall>x\<in>set xs. snd x = s" and "\<not> fl_gt s br"
  shows "select_best xs (bp, br) = (bp, br)"
  using assms
proof (induction xs)
  case Nil
  then show ?case by simp
next
  case (Cons x xs)
  obtain p r where x: "x = (p, r)" by (cases x)
  then have "r = s" using Cons.prems by simp
  then show ?case using Cons x by simp
qed

lemma select_best_first:
  assumes "\<forall>x\<in>set xs. snd x = s" and "fl_gt s br"
  shows "select_best ((p, s) # xs) (bp, br) = (Some p, s)"
  using assms select_best_const[of xs s s "Some p"] by (simp add: fl_gt_irrefl)

lemma main_grid_Cons:
  "\<exists>rest. main_grid =
     \<lparr>short_window = 10, long_window = 50, stop_loss = 3 / 100, take_profit = 5 / 100\<rparr> # rest"
  by (simp add: main_grid_def nested_loops_def)

lemma main_grid_bounds:
  assumes "p \<in> set main_grid"
  shows "short_window p \<le> 30 \<and> long_window p \<le> 100"
  using assms unfolding main_grid_set product_set_def by auto

lemma main_grid_windows_ok:
  assumes "p \<in> set main_grid" and "30 \<le> n"
  shows "windows_ok n (short_window p) (long_window p)"
  using main_grid_windows[OF assms(1)] main_grid_bounds[OF assms(1)] assms(2)
  by (auto simp add: windows_ok_def)

lemma hyperparameter_tuning_flat:
  "snd (hyperparameter_tuning exact (new_frame (replicate 30 7))) = None \<and>
   best_params (fst (hyperparameter_tuning exact (new_frame (replicate 30 7))))
     = Some \<lparr>short_window = 10, long_window = 50, stop_loss = 3 / 100, take_profit = 5 / 100\<rparr> \<and>
   best_return (fst (hyperparameter_tuning exact (new_frame (replicate 30 7)))) = Fin 0"
proof -
  let ?c = "replicate 30 (7::real)"
  let ?d = "new_frame ?c"
  let ?p = "\<lparr>short_window = 10, long_window = 50, stop_loss = 3 / 100, take_profit = 5 / 100\<rparr>"
  have c: "Close (table (initial_state ?d)) = ?c" by (simp add: initial_state_def new_frame_def)
  have sc: "\<And>q. score exact ?c q = Fin 0" by (rule score_constant_exact) simp_all
  have "snd (search_loop exact main_grid (initial_state ?d)) = None"
  proof (rule search_loop_ok)
    show "Close (table (initial_state ?d)) \<noteq> []" unfolding c by simp
    show "\<forall>p\<in>set main_grid.
            windows_ok (length (Close (table (initial_state ?d)))) (short_window p) (long_window p)"
      unfolding c by (simp add: main_grid_windows_ok)
  qed
  then obtain st where l: "search_loop exact main_grid (initial_state ?d) = (st, None)"
    by (cases "search_loop exact main_grid (initial_state ?d)") simp
  from main_grid_Cons obtain rest where g: "main_grid = ?p # rest" by blast
  have all: "\<forall>x\<in>set (scored exact ?c rest). snd x = Fin 0"
    by (auto simp add: scored_def sc)
  have "scored exact ?c main_grid = (?p, Fin 0) # scored exact ?c rest"
    unfolding g by (simp only: scored_def list.map sc)
  then have "select_best (scored exact ?c main_grid) (None, NInf) = (Some ?p, Fin 0)"
    using select_best_first[OF all, of NInf ?p None] by simp
  then have b: "best_params st = Some ?p" "best_return st = Fin 0"
    using search_loop_done[OF l] unfolding c by (simp_all add: initial_state_def)
  have "hyperparameter_tuning exact ?d = (st, None)"
    using l b by (simp add: hyperparameter_tuning_def)
  then show ?thesis using b by simp
qed

text \<open>
  Claim C4, amended.  Neither search loop skips a parameter set: when
  \<^verbatim>\<open>tune_hyperparameters\<close> completes it has run and scored every combination of the
  Cartesian product of its four lists, in the order of enumeration, including those with
  \<open>short_window \<ge> long_window\<close>, and such a combination can be returned as the best.  The
  best parameter set returned is always one of the combinations offered, so it has
  \<open>short_window < long_window\<close> whenever every short window offered is below every long
  window offered; this is so for the grid of \<^verbatim>\<open>hyperparameter_tuning\<close> in main.py, whose
  result therefore always has \<open>short_window < long_window\<close>.
\<close>

theorem grid_search_scores_every_combination:
  "(tune_hyperparameters A d sws lws sls tps = (st, None) \<longrightarrow>
      (\<exists>grid. ParameterGrid sws lws sls tps = Inr grid \<and>
         set grid = product_set sws lws sls tps \<and>
         printed st = scored A (Close d) grid) \<and>
      (\<forall>p. best_params st = Some p \<longrightarrow>
         p \<in> product_set sws lws sls tps \<and>
         ((\<forall>s\<in>set sws. \<forall>l\<in>set lws. s < l) \<longrightarrow> short_window p < long_window p))) \<and>
   (hyperparameter_tuning A d = (st, None) \<longrightarrow>
      printed st = scored A (Close d) main_grid \<and>
      (\<exists>p. best_params st = Some p \<and> p \<in> set main_grid \<and> short_window p < long_window p))"
proof (intro conjI impI)
  assume t: "tune_hyperparameters A d sws lws sls tps = (st, None)"
  from tune_hyperparameters_done[OF t] obtain grid where
    g: "ParameterGrid sws lws sls tps = Inr grid" "search_loop A grid (initial_state d) = (st, None)"
    by blast
  have pr: "printed st = scored A (Close d) grid"
    using search_loop_done[OF g(2)] by (simp add: initial_state_def)
  have gs: "set grid = product_set sws lws sls tps" using g(1) by (rule ParameterGrid_set)
  show "\<exists>grid. ParameterGrid sws lws sls tps = Inr grid \<and>
         set grid = product_set sws lws sls tps \<and> printed st = scored A (Close d) grid"
    using g(1) gs pr by blast
  show "\<forall>p. best_params st = Some p \<longrightarrow>
         p \<in> product_set sws lws sls tps \<and>
         ((\<forall>s\<in>set sws. \<forall>l\<in>set lws. s < l) \<longrightarrow> short_window p < long_window p)"
  proof (intro allI impI)
    fix p assume b: "best_params st = Some p"
    from search_loop_choice[OF g(2) b] have "p \<in> set grid" by (metis in_set_conv_decomp)
    then have m: "p \<in> product_set sws lws sls tps" using gs by simp
    then have "(\<forall>s\<in>set sws. \<forall>l\<in>set lws. s < l) \<longrightarrow> short_window p < long_window p"
      by (simp add: product_set_def)
    with m show "p \<in> product_set sws lws sls tps \<and>
         ((\<forall>s\<in>set sws. \<forall>l\<in>set lws. s < l) \<longrightarrow> short_window p < long_window p)" by blast
  qed
next
  assume h: "hyperparameter_tuning A d = (st, None)"
  from hyperparameter_tuning_done[OF h] have
    l: "search_loop A main_grid (initial_state d) = (st, None)" and b: "best_params st \<noteq> None"
    by simp_all
  show "printed st = scored A (Close d) main_grid"
    using search_loop_done[OF l] by (simp add: initial_state_def)
  from b obtain p where p: "best_params st = Some p" by auto
  from search_loop_choice[OF l p] have "p \<in> set main_grid" by (metis in_set_conv_decomp)
  then show "\<exists>p. best_params st = Some p \<and> p \<in> set main_grid \<and> short_window p < long_window p"
    using p main_grid_windows by blast
qed

theorem grid_search_skip_counterexample:
  "snd (tune_hyperparameters exact (new_frame ex_prices) [3] [2] [5 / 100] [1 / 10]) = None \<and>
   printed (fst (tune_hyperparameters exact (new_frame ex_prices) [3] [2] [5 / 100] [1 / 10]))
     = [(ex_params 3 2, Fin (- 1 / 19))] \<and>
   best_params (fst (tune_hyperparameters exact (new_frame ex_prices) [3] [2] [5 / 100] [1 / 10]))
     = Some (ex_params 3 2) \<and>
   short_window (ex_params 3 2) \<ge> long_window (ex_params 3 2)"
proof -
  have t: "tune_hyperparameters exact (new_frame ex_prices) [3] [2] [5 / 100] [1 / 10] =
     (\<lparr>table = pipeline_frame exact ex_prices (ex_params 3 2),
       best_params = (if fl_gt (score exact ex_prices (ex_params 3 2)) NInf
                      then Some (ex_params 3 2) else None),
       best_return = (if fl_gt (score exact ex_prices (ex_params 3 2)) NInf
                      then score exact ex_prices (ex_params 3 2) else NInf),
       printed = [(ex_params 3 2, score exact ex_prices (ex_params 3 2))]\<rparr>, None)"
    by (rule tune_single) (simp_all add: ex_prices_def windows_ok_def)
  have w: "short_window (ex_params 3 2) \<ge> long_window (ex_params 3 2)"
    by (simp add: ex_params_def)
  show ?thesis unfolding t score_ex_3_2 using w by simp
qed



theorem grid_search_scores_every_combination_witness:
  "tune_hyperparameters exact (new_frame ex_prices) [2] [3] [5 / 100] [1 / 10]
     = (fst (tune_hyperparameters exact (new_frame ex_prices) [2] [3] [5 / 100] [1 / 10]), None) \<and>
   best_params (fst (tune_hyperparameters exact (new_frame ex_prices) [2] [3] [5 / 100] [1 / 10]))
     = Some (ex_params 2 3) \<and>
   printed (fst (tune_hyperparameters exact (new_frame ex_prices) [2] [3] [5 / 100] [1 / 10]))
     = [(ex_params 2 3, Fin (- 1 / 20))] \<and>
   short_window (ex_params 2 3) < long_window (ex_params 2 3) \<and>
   hyperparameter_tuning exact (new_frame (replicate 30 7)) = (fst (hyperparameter_tuning exact (new_frame (replicate 30 7))), None) \<and>
   best_params (fst (hyperparameter_tuning exact (new_frame (replicate 30 7))))
     = Some \<lparr>short_window = 10, long_window = 50, stop_loss = 3 / 100, take_profit = 5 / 100\<rparr>"
proof -
  let ?T = "tune_hyperparameters exact (new_frame ex_prices) [2] [3] [5 / 100] [1 / 10]"
  let ?H = "hyperparameter_tuning exact (new_frame (replicate 30 7))"
  have t: "?T =
     (\<lparr>table = pipeline_frame exact ex_prices (ex_params 2 3),
       best_params = (if fl_gt (score exact ex_prices (ex_params 2 3)) NInf
                      then Some (ex_params 2 3) else None),
       best_return = (if fl_gt (score exact ex_prices (ex_params 2 3)) NInf
                      then score exact ex_prices (ex_params 2 3) else NInf),
       printed = [(ex_params 2 3, score exact ex_prices (ex_params 2 3))]\<rparr>, None)"
    by (rule tune_single) (simp_all add: ex_prices_def windows_ok_def)
  have h1: "?T = (fst ?T, None)" unfolding t by simp
  have h2: "best_params (fst ?T) = Some (ex_params 2 3)" unfolding t score_ex_2_3 by simp
  have h3: "printed (fst ?T) = [(ex_params 2 3, Fin (- 1 / 20))]" unfolding t score_ex_2_3 by simp
  have h4: "\<forall>s\<in>set [2::int]. \<forall>l\<in>set [3::int]. s < l" by simp
  have h5: "?H = (fst ?H, None)" using hyperparameter_tuning_flat by (cases ?H) simp
  from grid_search_scores_every_combination[of exact "new_frame ex_prices" "[2]" "[3]" "[5 / 100]"
      "[1 / 10]" "fst ?T"] h1 h2 h4
  have a: "short_window (ex_params 2 3) < long_window (ex_params 2 3)" by blast
  from grid_search_scores_every_combination[where A = exact and d = "new_frame (replicate 30 7)" and st = "fst ?H"] h5
  have "\<exists>p. best_params (fst ?H) = Some p \<and> short_window p < long_window p" by blast
  then show ?thesis using h1 h2 h3 h5 a hyperparameter_tuning_flat by simp
qed

section \<open>The tie-break of the grid search\<close>

lemma score_tie_1_3: "score exact ex_tie (ex_params 1 3) = Fin (- 1 / 2)"
  by (simp add: score_def ex_tie_def ex_params_def managed_col_def signal_col_def rolling_mean_def np_where_gt_def risk_run_def risk_step_def strategy_col_def daily_col_def pct_change_def shift1_def as_float_def cumulative_returns_def cumprod_def fl_sub_def fl_lt_def stop_level_def profit_level_def Let_def)

lemma score_tie_2_3: "score exact ex_tie (ex_params 2 3) = Fin 0"
  by (simp add: score_def ex_tie_def ex_params_def managed_col_def signal_col_def rolling_mean_def np_where_gt_def risk_run_def risk_step_def strategy_col_def daily_col_def pct_change_def shift1_def as_float_def cumulative_returns_def cumprod_def fl_sub_def fl_lt_def stop_level_def profit_level_def Let_def)

lemma score_tie_1_4: "score exact ex_tie (ex_params 1 4) = Fin 0"
  by (simp add: score_def ex_tie_def ex_params_def managed_col_def signal_col_def rolling_mean_def np_where_gt_def risk_run_def risk_step_def strategy_col_def daily_col_def pct_change_def shift1_def as_float_def cumulative_returns_def cumprod_def fl_sub_def fl_lt_def stop_level_def profit_level_def Let_def)

lemma score_tie_2_4: "score exact ex_tie (ex_params 2 4) = Fin 0"
  by (simp add: score_def ex_tie_def ex_params_def managed_col_def signal_col_def rolling_mean_def np_where_gt_def risk_run_def risk_step_def strategy_col_def daily_col_def pct_change_def shift1_def as_float_def cumulative_returns_def cumprod_def fl_sub_def fl_lt_def stop_level_def profit_level_def Let_def)

lemma ParameterGrid_tie:
  "ParameterGrid [1, 2] [3, 4] [5 / 100] [1 / 10]
     = Inr [ex_params 1 3, ex_params 2 3, ex_params 1 4, ex_params 2 4]"
  by (simp add: ParameterGrid_def ex_params_def)

lemma nested_loops_tie:
  "nested_loops [1, 2] [3, 4] [5 / 100] [1 / 10]
     = [ex_params 1 3, ex_params 1 4, ex_params 2 3, ex_params 2 4]"
  by (simp add: nested_loops_def ex_params_def)

lemma tune_tie:
  "snd (tune_hyperparameters exact (new_frame ex_tie) [1, 2] [3, 4] [5 / 100] [1 / 10]) = None \<and>
   best_params (fst (tune_hyperparameters exact (new_frame ex_tie) [1, 2] [3, 4] [5 / 100] [1 / 10]))
     = Some (ex_params 2 3) \<and>
   best_return (fst (tune_hyperparameters exact (new_frame ex_tie) [1, 2] [3, 4] [5 / 100] [1 / 10]))
     = Fin 0"
proof -
  let ?d = "new_frame ex_tie"
  let ?grid = "[ex_params 1 3, ex_params 2 3, ex_params 1 4, ex_params 2 4]"
  have c: "Close (table (initial_state ?d)) = ex_tie" by (simp add: initial_state_def new_frame_def)
  have "snd (search_loop exact ?grid (initial_state ?d)) = None"
    by (rule search_loop_ok)
      (simp_all add: initial_state_def new_frame_def ex_params_def ex_tie_def windows_ok_def)
  then obtain st where l: "search_loop exact ?grid (initial_state ?d) = (st, None)"
    by (cases "search_loop exact ?grid (initial_state ?d)") simp
  have "select_best (scored exact ex_tie ?grid) (None, NInf) = (Some (ex_params 2 3), Fin 0)"
    by (simp add: scored_def score_tie_1_3 score_tie_2_3 score_tie_1_4 score_tie_2_4)
  then have b: "best_params st = Some (ex_params 2 3)" "best_return st = Fin 0"
    using search_loop_done[OF l] c by (simp_all add: initial_state_def)
  have "tune_hyperparameters exact ?d [1, 2] [3, 4] [5 / 100] [1 / 10] = (st, None)"
    unfolding tune_hyperparameters_def ParameterGrid_tie using l by simp
  then show ?thesis using b by simp
qed

text \<open>
  Claim C8, amended.  A round of the search loop replaces the best parameter set and score
  exactly when the score of the round is strictly greater than the best score so far.  So
  the parameter set that \<^verbatim>\<open>tune_hyperparameters\<close> or \<^verbatim>\<open>hyperparameter_tuning\<close> returns stands
  at a place of the enumeration where every earlier parameter set has a strictly smaller
  (or undefined) score and no later one has a strictly greater score: among parameter sets
  of equal score the first enumerated is selected.  The enumeration is that of each loop.
  For \<^verbatim>\<open>hyperparameter_tuning\<close> it is the order of the four nested loops, \<open>short_window\<close>
  outermost, which is the order of the specification.  For \<^verbatim>\<open>tune_hyperparameters\<close> it is
  the order of \<^verbatim>\<open>ParameterGrid\<close>, which sorts the keys by name and so has \<open>long_window\<close>
  outermost: there the first of the tied parameter sets in the order of the specification
  need not be the one selected.
\<close>

theorem strictly_greater_replaces_first_of_loop_order:
  "(search_step A q s0 = (s1, None) \<longrightarrow>
      (best_params s1, best_return s1) =
        (if fl_gt (score A (Close (table s0)) q) (best_return s0)
         then (Some q, score A (Close (table s0)) q)
         else (best_params s0, best_return s0))) \<and>
   (tune_hyperparameters A d sws lws sls tps = (st, None) \<and> best_params st = Some p \<longrightarrow>
      (\<exists>grid pre post.
         ParameterGrid sws lws sls tps = Inr grid \<and> grid = pre @ p # post \<and>
         best_return st = score A (Close d) p \<and>
         (\<forall>q\<in>set pre. score A (Close d) q = NaN \<or> fl_gt (score A (Close d) p) (score A (Close d) q)) \<and>
         (\<forall>q\<in>set pre. score A (Close d) q \<noteq> score A (Close d) p) \<and>
         (\<forall>q\<in>set post. \<not> fl_gt (score A (Close d) q) (score A (Close d) p)))) \<and>
   (hyperparameter_tuning A d = (st, None) \<longrightarrow>
      (\<exists>p pre post.
         best_params st = Some p \<and> main_grid = pre @ p # post \<and>
         best_return st = score A (Close d) p \<and>
         (\<forall>q\<in>set pre. score A (Close d) q = NaN \<or> fl_gt (score A (Close d) p) (score A (Close d) q)) \<and>
         (\<forall>q\<in>set pre. score A (Close d) q \<noteq> score A (Close d) p) \<and>
         (\<forall>q\<in>set post. \<not> fl_gt (score A (Close d) q) (score A (Close d) p))))"
proof (intro conjI impI)
  show "search_step A q s0 = (s1, None) \<Longrightarrow> (best_params s1, best_return s1) =
        (if fl_gt (score A (Close (table s0)) q) (best_return s0)
         then (Some q, score A (Close (table s0)) q)
         else (best_params s0, best_return s0))"
  proof -
    assume s: "search_step A q s0 = (s1, None)"
    have "windows_ok (length (Close (table s0))) (short_window q) (long_window q) \<and>
          Close (table s0) \<noteq> []"
      using search_step_fails[of s0 q A] s by auto
    then show ?thesis using s search_step_ok[of s0 q A] by auto
  qed
next
  assume a: "tune_hyperparameters A d sws lws sls tps = (st, None) \<and> best_params st = Some p"
  from tune_hyperparameters_done[of A d sws lws sls tps st] a obtain grid where
    g: "ParameterGrid sws lws sls tps = Inr grid" "search_loop A grid (initial_state d) = (st, None)"
    by blast
  from a have b: "best_params st = Some p" by simp
  from search_loop_choice[OF g(2) b] obtain pre post where
    h: "grid = pre @ p # post" "best_return st = score A (Close d) p"
       "\<forall>q\<in>set pre. score A (Close d) q = NaN \<or> fl_gt (score A (Close d) p) (score A (Close d) q)"
       "\<forall>q\<in>set post. \<not> fl_gt (score A (Close d) q) (score A (Close d) p)"
    by blast
  have ne: "\<forall>q\<in>set pre. score A (Close d) q \<noteq> score A (Close d) p"
  proof
    fix q assume "q \<in> set pre"
    with h(3) have "score A (Close d) q = NaN \<or> fl_gt (score A (Close d) p) (score A (Close d) q)" by blast
    moreover have "score A (Close d) p \<noteq> NaN"
    proof -
      have "select_best (scored A (Close d) grid) (None, NInf) = (best_params st, best_return st)"
        using search_loop_done[OF g(2)] by (simp add: initial_state_def)
      from select_best_first_max[OF _ this] b have "fl_gt (best_return st) NInf" by auto
      then show ?thesis using h(2) fl_gt_not_NaN by metis
    qed
    ultimately show "score A (Close d) q \<noteq> score A (Close d) p"
      using fl_gt_irrefl by metis
  qed
  show "\<exists>grid pre post.
         ParameterGrid sws lws sls tps = Inr grid \<and> grid = pre @ p # post \<and>
         best_return st = score A (Close d) p \<and>
         (\<forall>q\<in>set pre. score A (Close d) q = NaN \<or> fl_gt (score A (Close d) p) (score A (Close d) q)) \<and>
         (\<forall>q\<in>set pre. score A (Close d) q \<noteq> score A (Close d) p) \<and>
         (\<forall>q\<in>set post. \<not> fl_gt (score A (Close d) q) (score A (Close d) p))"
    using g(1) h ne by blast
next
  assume a: "hyperparameter_tuning A d = (st, None)"
  from hyperparameter_tuning_done[OF a] have
    l: "search_loop A main_grid (initial_state d) = (st, None)" and nn: "best_params st \<noteq> None"
    by simp_all
  from nn obtain p where b: "best_params st = Some p" by auto
  from search_loop_choice[OF l b] obtain pre post where
    h: "main_grid = pre @ p # post" "best_return st = score A (Close d) p"
       "\<forall>q\<in>set pre. score A (Close d) q = NaN \<or> fl_gt (score A (Close d) p) (score A (Close d) q)"
       "\<forall>q\<in>set post. \<not> fl_gt (score A (Close d) q) (score A (Close d) p)"
    by blast
  have ne: "\<forall>q\<in>set pre. score A (Close d) q \<noteq> score A (Close d) p"
  proof
    fix q assume "q \<in> set pre"
    with h(3) have "score A (Close d) q = NaN \<or> fl_gt (score A (Close d) p) (score A (Close d) q)" by blast
    moreover have "score A (Close d) p \<noteq> NaN"
    proof -
      have "select_best (scored A (Close d) main_grid) (None, NInf) = (best_params st, best_return st)"
        using search_loop_done[OF l] by (simp add: initial_state_def)
      from select_best_first_max[OF _ this] b have "fl_gt (best_return st) NInf" by auto
      then show ?thesis using h(2) fl_gt_not_NaN by metis
    qed
    ultimately show "score A (Close d) q \<noteq> score A (Close d) p"
      using fl_gt_irrefl by metis
  qed
  show "\<exists>p pre post.
         best_params st = Some p \<and> main_grid = pre @ p # post \<and>
         best_return st = score A (Close d) p \<and>
         (\<forall>q\<in>set pre. score A (Close d) q = NaN \<or> fl_gt (score A (Close d) p) (score A (Close d) q)) \<and>
         (\<forall>q\<in>set pre. score A (Close d) q \<noteq> score A (Close d) p) \<and>
         (\<forall>q\<in>set post. \<not> fl_gt (score A (Close d) q) (score A (Close d) p))"
    using b h ne by blast
qed

text \<open>
  On the closes 8, 2, 6, 3 with short windows 1 and 2 and long windows 3 and 4 the windows
  1 and 3 lose a half and the three other pairs earn nothing.  \<^verbatim>\<open>tune_hyperparameters\<close>
  meets the pair 2 and 3 before the pair 1 and 4 and returns it; in the order of the
  specification the pair 1 and 4 comes first and would be selected.
\<close>

theorem first_in_specified_order_counterexample:
  "snd (tune_hyperparameters exact (new_frame ex_tie) [1, 2] [3, 4] [5 / 100] [1 / 10]) = None \<and>
   best_params (fst (tune_hyperparameters exact (new_frame ex_tie) [1, 2] [3, 4] [5 / 100] [1 / 10]))
     = Some (ex_params 2 3) \<and>
   nested_loops [1, 2] [3, 4] [5 / 100] [1 / 10]
     = [ex_params 1 3, ex_params 1 4, ex_params 2 3, ex_params 2 4] \<and>
   score exact ex_tie (ex_params 1 4) = score exact ex_tie (ex_params 2 3) \<and>
   select_best (scored exact ex_tie (nested_loops [1, 2] [3, 4] [5 / 100] [1 / 10])) (None, NInf)
     = (Some (ex_params 1 4), Fin 0) \<and>
   ex_params 1 4 \<noteq> ex_params 2 3"
proof -
  have s: "select_best (scored exact ex_tie (nested_loops [1, 2] [3, 4] [5 / 100] [1 / 10]))
             (None, NInf) = (Some (ex_params 1 4), Fin 0)"
    unfolding nested_loops_tie
    by (simp add: scored_def score_tie_1_3 score_tie_2_3 score_tie_1_4 score_tie_2_4)
  have n: "ex_params 1 4 \<noteq> ex_params 2 3" by (simp add: ex_params_def)
  show ?thesis using tune_tie nested_loops_tie s n by (simp add: score_tie_1_4 score_tie_2_3)
qed

theorem strictly_greater_replaces_first_of_loop_order_witness:
  "tune_hyperparameters exact (new_frame ex_tie) [1, 2] [3, 4] [5 / 100] [1 / 10]
     = (fst (tune_hyperparameters exact (new_frame ex_tie) [1, 2] [3, 4] [5 / 100] [1 / 10]), None) \<and>
   best_params (fst (tune_hyperparameters exact (new_frame ex_tie) [1, 2] [3, 4] [5 / 100] [1 / 10]))
     = Some (ex_params 2 3) \<and>
   ParameterGrid [1, 2] [3, 4] [5 / 100] [1 / 10]
     = Inr [ex_params 1 3, ex_params 2 3, ex_params 1 4, ex_params 2 4] \<and>
   score exact ex_tie (ex_params 1 4) = score exact ex_tie (ex_params 2 3) \<and>
   best_return (fst (tune_hyperparameters exact (new_frame ex_tie) [1, 2] [3, 4] [5 / 100] [1 / 10]))
     = score exact (Close (new_frame ex_tie)) (ex_params 2 3) \<and>
   search_step exact (ex_params 1 3) (initial_state (new_frame ex_tie))
     = (fst (search_step exact (ex_params 1 3) (initial_state (new_frame ex_tie))), None) \<and>
   best_params (fst (search_step exact (ex_params 1 3) (initial_state (new_frame ex_tie))))
     = Some (ex_params 1 3) \<and>
   hyperparameter_tuning exact (new_frame (replicate 30 7))
     = (fst (hyperparameter_tuning exact (new_frame (replicate 30 7))), None) \<and>
   best_params (fst (hyperparameter_tuning exact (new_frame (replicate 30 7))))
     = Some \<lparr>short_window = 10, long_window = 50, stop_loss = 3 / 100, take_profit = 5 / 100\<rparr>"
proof -
  let ?d = "new_frame ex_tie"
  let ?T = "tune_hyperparameters exact ?d [1, 2] [3, 4] [5 / 100] [1 / 10]"
  let ?H = "hyperparameter_tuning exact (new_frame (replicate 30 7))"
  let ?S = "search_step exact (ex_params 1 3) (initial_state ?d)"
  have h1: "?T = (fst ?T, None)" using tune_tie by (cases ?T) simp
  have h2: "best_params (fst ?T) = Some (ex_params 2 3)" using tune_tie by simp
  have h3: "?H = (fst ?H, None)" using hyperparameter_tuning_flat by (cases ?H) simp
  have c: "Close (table (initial_state ?d)) = ex_tie" by (simp add: initial_state_def new_frame_def)
  have w: "windows_ok (length (Close (table (initial_state ?d)))) (short_window (ex_params 1 3))
             (long_window (ex_params 1 3))"
    unfolding c by (simp add: windows_ok_def ex_params_def ex_tie_def)
  have ne: "Close (table (initial_state ?d)) \<noteq> []" unfolding c by (simp add: ex_tie_def)
  have h4: "?S = (fst ?S, None)" using search_step_ok[OF w ne, of exact] by simp
  from strictly_greater_replaces_first_of_loop_order[where A = exact and d = ?d and sws = "[1, 2]"
      and lws = "[3, 4]" and sls = "[5 / 100]" and tps = "[1 / 10]" and st = "fst ?T"
      and p = "ex_params 2 3" and q = "ex_params 1 3" and ?s0.0 = "initial_state ?d"
      and ?s1.0 = "fst ?S"] h1 h2 h4
  have r: "best_return (fst ?T) = score exact (Close ?d) (ex_params 2 3)"
    "(best_params (fst ?S), best_return (fst ?S)) =
        (if fl_gt (score exact (Close (table (initial_state ?d))) (ex_params 1 3))
              (best_return (initial_state ?d))
         then (Some (ex_params 1 3), score exact (Close (table (initial_state ?d))) (ex_params 1 3))
         else (best_params (initial_state ?d), best_return (initial_state ?d)))"
    by blast+
  have b: "best_params (fst ?S) = Some (ex_params 1 3)"
    using r(2) unfolding c by (simp add: score_tie_1_3 initial_state_def)
  show ?thesis
    using h1 h2 h3 h4 ParameterGrid_tie r(1) b hyperparameter_tuning_flat
    by (simp add: score_tie_1_4 score_tie_2_3)
qed

section \<open>The Close column\<close>

lemma tune_hyperparameters_Close:
  "Close (table (fst (tune_hyperparameters A d sws lws sls tps))) = Close d"
proof (cases "ParameterGrid sws lws sls tps")
  case (Inl e)
  then show ?thesis by (simp add: tune_hyperparameters_def initial_state_def)
next
  case (Inr grid)
  then show ?thesis
    using search_loop_Close[of A grid "initial_state d"]
    by (simp add: tune_hyperparameters_def initial_state_def)
qed

lemma hyperparameter_tuning_Close:
  "Close (table (fst (hyperparameter_tuning A d))) = Close d"
proof -
  obtain st r where s: "search_loop A main_grid (initial_state d) = (st, r)"
    by (cases "search_loop A main_grid (initial_state d)")
  then have "Close (table st) = Close d"
    using search_loop_Close[of A main_grid "initial_state d"] by (simp add: initial_state_def)
  then show ?thesis using s by (cases r) (simp_all add: hyperparameter_tuning_def)
qed

lemma tune_hyperparameters_printed:
  assumes "tune_hyperparameters A d sws lws sls tps = (st, None)"
  shows "\<exists>grid. ParameterGrid sws lws sls tps = Inr grid \<and> printed st = scored A (Close d) grid"
proof -
  from tune_hyperparameters_done[OF assms] obtain grid where
    g: "ParameterGrid sws lws sls tps = Inr grid" "search_loop A grid (initial_state d) = (st, None)"
    by blast
  from search_loop_done[OF g(2)] have "printed st = scored A (Close d) grid"
    by (simp add: initial_state_def)
  with g(1) show ?thesis by blast
qed

text \<open>
  Claim C10.  No call writes the Close column: after any sequence of calls of signal
  generation, risk management and backtest (also one ended by an exception), and after
  either grid search, the Close column of the table is the one it had at the start.
  Every derived column is written anew by each run, so on two tables with the same
  Close column a run with the same parameters raises or succeeds alike and, when it
  succeeds, leaves the same table, which is a function of the Close column and the
  parameters; and every score printed by a completed grid search is the score of its
  parameter set on the Close column.
\<close>

theorem close_column_never_modified:
  "Close (fst (run_calls A cs d)) = Close d \<and>
   Close (table (fst (tune_hyperparameters A d sws lws sls tps))) = Close d \<and>
   Close (table (fst (hyperparameter_tuning A d))) = Close d \<and>
   (Close d' = Close d \<longrightarrow>
      snd (run_pipeline A d' p) = snd (run_pipeline A d p) \<and>
      (snd (run_pipeline A d p) = None \<longrightarrow>
         run_pipeline A d' p = run_pipeline A d p \<and>
         fst (run_pipeline A d p) = pipeline_frame A (Close d) p)) \<and>
   (tune_hyperparameters A d sws lws sls tps = (st, None) \<longrightarrow>
      printed st = scored A (Close d) (map fst (printed st)))"
proof (intro conjI impI)
  show "Close (fst (run_calls A cs d)) = Close d" by (rule run_calls_Close)
  show "Close (table (fst (tune_hyperparameters A d sws lws sls tps))) = Close d"
    by (rule tune_hyperparameters_Close)
  show "Close (table (fst (hyperparameter_tuning A d))) = Close d"
    by (rule hyperparameter_tuning_Close)
next
  assume e: "Close d' = Close d"
  show "snd (run_pipeline A d' p) = snd (run_pipeline A d p)"
  proof (cases "windows_ok (length (Close d)) (short_window p) (long_window p)")
    case True
    then show ?thesis using e by (simp add: run_pipeline_ok)
  next
    case False
    then show ?thesis
      using run_pipeline_error[of d p A] run_pipeline_error[of d' p A] e by simp
  qed
next
  assume e: "Close d' = Close d" and n: "snd (run_pipeline A d p) = None"
  have "windows_ok (length (Close d)) (short_window p) (long_window p)"
    using run_pipeline_done[of A d p "fst (run_pipeline A d p)"] n
    by (cases "run_pipeline A d p") simp
  then show "run_pipeline A d' p = run_pipeline A d p"
    using e by (simp add: run_pipeline_ok)
next
  assume n: "snd (run_pipeline A d p) = None"
  then show "fst (run_pipeline A d p) = pipeline_frame A (Close d) p"
    using run_pipeline_done[of A d p "fst (run_pipeline A d p)"]
    by (cases "run_pipeline A d p") simp
next
  assume "tune_hyperparameters A d sws lws sls tps = (st, None)"
  from tune_hyperparameters_printed[OF this] obtain grid where
    "printed st = scored A (Close d) grid" by blast
  then show "printed st = scored A (Close d) (map fst (printed st))"
    by (simp add: scored_def comp_def)
qed

theorem close_column_never_modified_witness:
  "Close (pipeline_frame exact ex_prices (ex_params 3 2)) = Close (new_frame ex_prices) \<and>
   snd (run_pipeline exact (new_frame ex_prices) (ex_params 2 3)) = None \<and>
   run_pipeline exact (pipeline_frame exact ex_prices (ex_params 3 2)) (ex_params 2 3)
     = run_pipeline exact (new_frame ex_prices) (ex_params 2 3) \<and>
   Close (fst (run_calls exact [Call_signal 3 2, Call_risk (5 / 100) (1 / 10), Call_backtest,
                          Call_signal 2 3, Call_risk (5 / 100) (1 / 10), Call_backtest]
                 (new_frame ex_prices))) = [100, 105, 100, 95, 90] \<and>
   tune_hyperparameters exact (new_frame ex_prices) [2] [3] [5 / 100] [1 / 10]
     = (fst (tune_hyperparameters exact (new_frame ex_prices) [2] [3] [5 / 100] [1 / 10]), None) \<and>
   printed (fst (tune_hyperparameters exact (new_frame ex_prices) [2] [3] [5 / 100] [1 / 10]))
     = [(ex_params 2 3, score exact ex_prices (ex_params 2 3))]"
proof -
  let ?d = "new_frame ex_prices"
  let ?d' = "pipeline_frame exact ex_prices (ex_params 3 2)"
  let ?T = "tune_hyperparameters exact ?d [2] [3] [5 / 100] [1 / 10]"
  let ?cs = "[Call_signal 3 2, Call_risk (5 / 100) (1 / 10), Call_backtest,
              Call_signal 2 3, Call_risk (5 / 100) (1 / 10), Call_backtest]"
  have c: "Close ?d = [100, 105, 100, 95, 90]" by (simp add: new_frame_def ex_prices_def)
  have h1: "Close ?d' = Close ?d" by (simp add: pipeline_frame_Close new_frame_def)
  have h2: "snd (run_pipeline exact ?d (ex_params 2 3)) = None"
    by (simp add: run_pipeline_ok windows_ok_def new_frame_def ex_prices_def ex_params_def)
  have t: "?T =
     (\<lparr>table = pipeline_frame exact ex_prices (ex_params 2 3),
       best_params = (if fl_gt (score exact ex_prices (ex_params 2 3)) NInf
                      then Some (ex_params 2 3) else None),
       best_return = (if fl_gt (score exact ex_prices (ex_params 2 3)) NInf
                      then score exact ex_prices (ex_params 2 3) else NInf),
       printed = [(ex_params 2 3, score exact ex_prices (ex_params 2 3))]\<rparr>, None)"
    by (rule tune_single) (simp_all add: ex_prices_def windows_ok_def)
  have h3: "?T = (fst ?T, None)" unfolding t by simp
  have h4: "printed (fst ?T) = [(ex_params 2 3, score exact ex_prices (ex_params 2 3))]"
    unfolding t by simp
  from close_column_never_modified[where A = exact and d = ?d and d' = ?d' and p = "ex_params 2 3"
      and cs = ?cs and sws = "[2]" and lws = "[3]" and sls = "[5 / 100]" and tps = "[1 / 10]"
      and st = "fst ?T"] h1 h2 h3
  have r: "Close (fst (run_calls exact ?cs ?d)) = Close ?d"
    "run_pipeline exact ?d' (ex_params 2 3) = run_pipeline exact ?d (ex_params 2 3)"
    by blast+
  show ?thesis using h1 h2 h3 h4 r c by simp
qed

end
